theory Spec2Isabelle
  imports Complex_Main
begin

section \<open>JavaScript strings\<close>

text \<open>
  A JavaScript string is a sequence of UTF-16 code units; a code unit is modelled as a
  natural number. \<open>js\<close> turns an ASCII literal of the source into its code units.
  Characters beyond ASCII that occur in the source's literals (the box-drawing glyphs of
  the prompt, the check mark) are written as their code units.
\<close>

type_synonym jstring = "nat list"

definition js :: "string \<Rightarrow> jstring" where
  "js = map of_char"

text \<open>The white space of \<open>String.prototype.trim\<close> and of the regular expression \<open>\s\<close>.\<close>

definition isWhiteSpace :: "nat \<Rightarrow> bool" where
  "isWhiteSpace c \<longleftrightarrow>
     c = 9 \<or> c = 10 \<or> c = 11 \<or> c = 12 \<or> c = 13 \<or> c = 32 \<or> c = 160 \<or> c = 5760 \<or>
     (8192 \<le> c \<and> c \<le> 8202) \<or> c = 8232 \<or> c = 8233 \<or> c = 8239 \<or> c = 8287 \<or>
     c = 12288 \<or> c = 65279"

definition trim :: "jstring \<Rightarrow> jstring" where
  "trim s = rev (dropWhile isWhiteSpace (rev (dropWhile isWhiteSpace s)))"

text \<open>
  \<open>s.split(/\s+/)\<close>: the fields between maximal runs of white space. A string that
  starts (ends) with white space has an empty first (last) field, and the empty string has
  the single field \<open>''\<close>. \<open>split_ws_from in_sep\<close> scans the string; \<open>in_sep\<close> says that
  the code unit before was white space, so that a run of white space separates once.
\<close>

fun split_ws_from :: "bool \<Rightarrow> jstring \<Rightarrow> jstring list" where
  "split_ws_from in_sep [] = [[]]"
| "split_ws_from in_sep (c # cs) =
     (if isWhiteSpace c
      then (if in_sep then split_ws_from True cs else [] # split_ws_from True cs)
      else (case split_ws_from False cs of
              [] \<Rightarrow> [[c]]
            | f # fs \<Rightarrow> (c # f) # fs))"

definition split_ws :: "jstring \<Rightarrow> jstring list" where
  "split_ws s = split_ws_from False s"

text \<open>\<open>s.split(sep)\<close> for a separator of one code unit.\<close>

fun split_on :: "nat \<Rightarrow> jstring \<Rightarrow> jstring list" where
  "split_on sep [] = [[]]"
| "split_on sep (c # cs) =
     (if c = sep then [] # split_on sep cs
      else (case split_on sep cs of
              [] \<Rightarrow> [[c]]
            | f # fs \<Rightarrow> (c # f) # fs))"

text \<open>\<open>xs.join(sep)\<close>.\<close>

fun join :: "jstring \<Rightarrow> jstring list \<Rightarrow> jstring" where
  "join sep [] = []"
| "join sep [x] = x"
| "join sep (x # y # ys) = x @ sep @ join sep (y # ys)"

text \<open>\<open>s.startsWith(p)\<close>.\<close>

definition startsWith :: "jstring \<Rightarrow> jstring \<Rightarrow> bool" where
  "startsWith s p \<longleftrightarrow> take (length p) s = p"

section \<open>Numbers, the clock and the persistent store\<close>

text \<open>
  A JavaScript number is \<open>NaN\<close>, an infinity or a finite value. A finite value is the
  real number the double denotes: the order of finite doubles is the order of the reals.
  Arithmetic on doubles rounds, so the one subtraction of the program
  (\<open>performance.now() - startTime\<close>) is not the subtraction of the reals: it is left to
  the platform below.
\<close>

datatype number = NaN | NegInf | Fin real | PosInf

text \<open>The operator \<open><\<close> on numbers: false whenever an operand is \<open>NaN\<close>.\<close>

fun num_lt :: "number \<Rightarrow> number \<Rightarrow> bool" where
  "num_lt (Fin a) (Fin b) = (a < b)"
| "num_lt (Fin a) PosInf = True"
| "num_lt NegInf (Fin b) = True"
| "num_lt NegInf PosInf = True"
| "num_lt _ _ = False"

text \<open>
  The built-ins \<open>parseFloat\<close>, \<open>Number.prototype.toString\<close>,
  \<open>String.prototype.localeCompare\<close> (a collation that depends on the locale; negative,
  zero or positive) and \<open>String.prototype.toLowerCase\<close> belong to the platform, not to
  the repository: they are parameters of the model. So is \<open>numSub\<close>, the operator \<open>-\<close> on
  two finite doubles (the difference as IEEE 754 arithmetic rounds it), which the program
  applies to two readings of the clock.
\<close>

record platform =
  parseFloat :: "jstring \<Rightarrow> number"
  numToString :: "real \<Rightarrow> jstring"
  numSub :: "real \<Rightarrow> real \<Rightarrow> real"
  localeCompare :: "jstring \<Rightarrow> jstring \<Rightarrow> int"
  toLowerCase :: "jstring \<Rightarrow> jstring"

text \<open>
  \<open>localStorage\<close>, seen through the one key \<open>BEST_KEY\<close> the puzzle uses. \<open>getItem\<close>
  and \<open>setItem\<close> can throw (storage disabled, quota exceeded); whether they do is part of
  the environment.
\<close>

record storage =
  item :: "jstring option"
  getThrows :: bool
  setThrows :: bool

datatype js_exception = Thrown

definition getItem :: "storage \<Rightarrow> js_exception + jstring option" where
  "getItem st = (if getThrows st then Inl Thrown else Inr (item st))"

definition setItem :: "jstring \<Rightarrow> storage \<Rightarrow> js_exception + storage" where
  "setItem v st = (if setThrows st then Inl Thrown else Inr (st\<lparr>item := Some v\<rparr>))"

section \<open>The CTF puzzle (CyberPanel.tsx, CTFChallenge)\<close>

datatype line_kind = Out | Sys | Err | Root

text \<open>A transcript line. Its \<open>id\<close> is a random React key and is left out.\<close>

record PuzzleLine =
  content :: jstring
  kind :: line_kind

definition FINAL_FLAG :: jstring where
  "FINAL_FLAG = js ''FLAG{ur_cr@ck3d_brUh}''"

definition HIDDEN_FILENAME :: jstring where
  "HIDDEN_FILENAME = js ''.shadow''"

definition READ_ME :: jstring where
  "READ_ME = js ''readme.txt''"

definition FINAL_CIPHER :: jstring where
  "FINAL_CIPHER = js ''c3Nz.blk''"

definition PASSWORD :: jstring where
  \<open>PASSWORD = js ''Geof"fr3y"!@yyerf''\<close>

definition firstGreeting :: jstring where
  "firstGreeting =
     js ''There is a puzzle buried in this sandboxed shell. Escalate, enumerate, observe.''"

definition rootRiddle :: jstring where
  \<open>rootRiddle = js ''I hide in plain sight yet ls ignores me. Reveal all and you'll see me. Then read what I whisper.''\<close>

definition escalateRiddle :: jstring where
  "escalateRiddle =
     js ''I speak before the crown is worn:'' @ [10] @
     js ''The path to secrets stays withdrawn.'' @ [10] @
     js ''Ascend with ritual (two words, both short),'' @ [10] @
     js ''Then list again for a hidden report.''"

definition cipherRiddle :: jstring where
  "cipherRiddle = js ''Three roles rotate above: count their first initials then compress them. Present the cipher where S is the key. (use the encryption with the binary of 100000000)''"

text \<open>
  The component's state. The component reads it from the values of the current render
  and writes it through the setters; a write is visible to the next render only. The state
  variable \<open>root\<close> is the field \<open>root_flag\<close>, and the function \<open>help\<close> is \<open>help_cmd\<close> below:
  the source's names are taken in the logic.
\<close>

record ctf =
  lines :: "PuzzleLine list"
  input :: jstring
  solved :: bool
  root_flag :: bool
  revealedHidden :: bool
  awaitingPassword :: bool
  startTime :: "real option"
  bestTime :: "number option"
  celebrated :: bool

text \<open>\<open>const [cwd] = useState('~')\<close>: there is no setter, the directory never changes.\<close>

definition cwd :: jstring where
  "cwd = js ''~''"

definition intro_line :: PuzzleLine where
  "intro_line = \<lparr>content = firstGreeting, kind = Sys\<rparr>"

definition initial :: ctf where
  "initial = \<lparr>lines = [intro_line], input = [], solved = False, root_flag = False,
     revealedHidden = False, awaitingPassword = False, startTime = None, bestTime = None,
     celebrated = False\<rparr>"

text \<open>\<open>append\<close>: a functional update of the transcript, so it composes with earlier ones.\<close>

definition append_line :: "jstring \<Rightarrow> line_kind \<Rightarrow> ctf \<Rightarrow> ctf" where
  "append_line c k s = s\<lparr>lines := lines s @ [\<lparr>content = c, kind = k\<rparr>]\<rparr>"

text \<open>
  In the functions below \<open>r\<close> is the render the handler closes over (every read of a state
  variable) and \<open>s\<close> the state under construction (every write).
\<close>

definition promptTop :: "ctf \<Rightarrow> jstring" where
  "promptTop r =
     (if root_flag r
      then [9484, 9472, 9472] @ js ''(root'' @ [12927] @ js ''yyerf)-['' @ cwd @ js '']''
      else [9484, 9472, 9472] @ js ''(yyerf'' @ [12927] @ js ''portfolio)-['' @ cwd @ js '']'')"

definition promptBottom :: "ctf \<Rightarrow> jstring" where
  "promptBottom r = (if root_flag r then [9492, 9472] @ js ''$'' else [9492, 9472] @ js ''$'')"

definition help_cmd :: "ctf \<Rightarrow> ctf" where
  "help_cmd s =
     append_line (js ''clear          clear screen'') Out
    (append_line (js ''submit <flag>  submit flag'') Out
    (append_line (js ''cipher <val>   attempt final cipher'') Out
    (append_line (js ''cat <file>     read file'') Out
    (append_line (js ''ls [-a]        list files'') Out
    (append_line (js ''help           show this help'') Out s)))))"

definition base :: "jstring list" where
  "base = [READ_ME]"

definition doLs :: "ctf \<Rightarrow> bool \<Rightarrow> ctf \<Rightarrow> ctf" where
  "doLs r all s =
     (if root_flag r \<and> all
      then append_line (join (js ''  '') (base @ [HIDDEN_FILENAME])) Out
             (s\<lparr>revealedHidden := True\<rparr>)
      else append_line (join (js ''  '') base) Out s)"

definition doCat :: "ctf \<Rightarrow> jstring \<Rightarrow> ctf \<Rightarrow> ctf" where
  "doCat r file s =
     (if file = READ_ME then append_line escalateRiddle Out s
      else if file = HIDDEN_FILENAME then
        (if \<not> root_flag r
         then append_line (js ''cat: '' @ file @ js '': No such file or directory'') Err s
         else if \<not> revealedHidden r
         then append_line (js ''Permission denied (list with -a after escalation).'') Err s
         else append_line cipherRiddle Out s)
      else append_line (js ''cat: '' @ file @ js '': No such file or directory'') Err s)"

definition tryCipher :: "jstring \<Rightarrow> ctf \<Rightarrow> ctf" where
  "tryCipher val s =
     (if val = FINAL_CIPHER
      then append_line (js ''Use submission: FLAG{ur_cr@ck3d_brUh}'') Out
             (append_line (js ''Cipher accepted. Decrypting ...'') Out s)
      else append_line (js ''Invalid cipher'') Err s)"

text \<open>
  \<open>try { const stored = localStorage.getItem(BEST_KEY); if(stored) ... parseFloat(stored) }
  catch {}\<close>: the value read, if the read does not throw and the stored string is neither
  absent nor empty. The source has this code twice, in the effect that runs once after
  mounting and in \<open>submit\<close>.
\<close>

definition readBest :: "platform \<Rightarrow> storage \<Rightarrow> number option" where
  "readBest P st =
     (case getItem st of
        Inl _ \<Rightarrow> None
      | Inr None \<Rightarrow> None
      | Inr (Some stored) \<Rightarrow> if stored = [] then None else Some (parseFloat P stored))"

definition loadBest :: "platform \<Rightarrow> storage \<Rightarrow> ctf \<Rightarrow> ctf" where
  "loadBest P st s = (case readBest P st of None \<Rightarrow> s | Some b \<Rightarrow> s\<lparr>bestTime := Some b\<rparr>)"

text \<open>\<open>try { localStorage.setItem(BEST_KEY, v) } catch {}\<close>\<close>

definition trySetItem :: "jstring \<Rightarrow> storage \<Rightarrow> storage" where
  "trySetItem v st = (case setItem v st of Inl _ \<Rightarrow> st | Inr st' \<Rightarrow> st')"

text \<open>
  \<open>let existingBest = bestTime; if(existingBest === null){ ... }\<close>: the best time the
  handler compares with, the one cached in the state or else the one read from the store.
\<close>

definition existingBest :: "platform \<Rightarrow> ctf \<Rightarrow> storage \<Rightarrow> number option" where
  "existingBest P r st = (case bestTime r of None \<Rightarrow> readBest P st | Some b \<Rightarrow> Some b)"

text \<open>\<open>existingBest === null || duration < existingBest\<close>\<close>

definition beats :: "real \<Rightarrow> number option \<Rightarrow> bool" where
  "beats duration best = (case best of None \<Rightarrow> True | Some b \<Rightarrow> num_lt (Fin duration) b)"

text \<open>The \<open>submit\<close> case of \<open>onCommand\<close>; \<open>now\<close> is the value of \<open>performance.now()\<close>.\<close>

definition submit :: "platform \<Rightarrow> real \<Rightarrow> ctf \<Rightarrow> jstring \<Rightarrow> ctf \<times> storage \<Rightarrow> ctf \<times> storage" where
  "submit P now r arg = (\<lambda>(s, st).
     if arg = FINAL_FLAG then
       (let s1 = (append_line ([10004] @ js '' Correct flag. Challenge complete.'') Root s)
                   \<lparr>solved := True\<rparr>
        in case startTime r of
             None \<Rightarrow> (s1, st)
           | Some t0 \<Rightarrow>
               (let duration = numSub P now t0;
                    best = existingBest P r st
                in if beats duration best
                   then (s1\<lparr>bestTime := Some (Fin duration)\<rparr>,
                         trySetItem (numToString P duration) st)
                   else (s1\<lparr>bestTime := best\<rparr>, st)))
     else (append_line (js ''Incorrect flag'') Err s, st))"

text \<open>
  The \<open>switch\<close> of \<open>onCommand\<close> on the first token. An empty token list (which
  \<open>split\<close> never returns) would leave \<open>cmd\<close> undefined and reach the default case.
\<close>

definition dispatch :: "platform \<Rightarrow> real \<Rightarrow> ctf \<Rightarrow> jstring list \<Rightarrow> ctf \<times> storage \<Rightarrow> ctf \<times> storage" where
  "dispatch P now r toks = (\<lambda>(s, st).
     case toks of
       [] \<Rightarrow> (append_line (js ''Unknown command'') Err s, st)
     | cmd # rest \<Rightarrow>
        (let arg = join (js '' '') rest in
         if cmd = js ''help'' then (help_cmd s, st)
         else if cmd = js ''clear'' then (s\<lparr>lines := []\<rparr>, st)
         else if cmd = js ''sudo'' then
           (if (case rest of [] \<Rightarrow> False | x # _ \<Rightarrow> x = js ''su'')
            then (if root_flag r then (append_line (js ''Already root.'') Err s, st)
                  else (append_line (js ''[sudo] password for yyerf:'') Sys
                          (s\<lparr>awaitingPassword := True\<rparr>), st))
            else (append_line (js ''usage: sudo su'') Err s, st))
         else if cmd = js ''ls'' then (doLs r (js ''-a'' \<in> set rest) s, st)
         else if cmd = js ''cat'' then
           (if arg = [] then (append_line (js ''cat: missing operand'') Err s, st)
            else (doCat r arg s, st))
         else if cmd = js ''submit'' then submit P now r arg (s, st)
         else if cmd = js ''cipher'' then (tryCipher arg s, st)
         else (append_line (js ''Unknown command'') Err s, st)))"

text \<open>\<open>setInput('')\<close> and the start of the timer on the first real command.\<close>

definition begin_command :: "real \<Rightarrow> ctf \<Rightarrow> ctf" where
  "begin_command now r =
     (let s0 = r\<lparr>input := []\<rparr>
      in if startTime r = None then s0\<lparr>startTime := Some now\<rparr> else s0)"

text \<open>The password entry phase: neither the prompt nor the typed text is echoed.\<close>

definition password_entry :: "jstring \<Rightarrow> ctf \<Rightarrow> ctf" where
  "password_entry t s =
     (if t = PASSWORD
      then append_line rootRiddle Out
             (append_line (js ''Privilege escalation successful. Welcome root.'') Root
                (s\<lparr>awaitingPassword := False, root_flag := True\<rparr>))
      else append_line (js ''Sorry, try again.'') Err s)"

text \<open>The two prompt lines that echo a command.\<close>

definition echo :: "ctf \<Rightarrow> jstring \<Rightarrow> ctf \<Rightarrow> ctf" where
  "echo r t s =
     append_line (promptBottom r @ js '' '' @ t) Sys (append_line (promptTop r) Sys s)"

definition onCommand :: "platform \<Rightarrow> real \<Rightarrow> jstring \<Rightarrow> ctf \<times> storage \<Rightarrow> ctf \<times> storage" where
  "onCommand P now raw = (\<lambda>(r, st).
     let t = trim raw in
     if t = [] then (r, st)
     else
       (let s1 = begin_command now r
        in if awaitingPassword r then (password_entry t s1, st)
           else dispatch P now r (split_ws t) (echo r t s1, st)))"

text \<open>The Replay button.\<close>

definition replay :: "ctf \<Rightarrow> ctf" where
  "replay s = s\<lparr>lines := [intro_line], solved := False, celebrated := False, startTime := None\<rparr>"

text \<open>The effect that runs after a render with \<open>solved && !celebrated\<close>.\<close>

definition celebrate :: "ctf \<Rightarrow> ctf" where
  "celebrate s = (if solved s \<and> \<not> celebrated s then s\<lparr>celebrated := True\<rparr> else s)"

section \<open>The portfolio terminal (Terminal.tsx)\<close>

subsection \<open>The virtual file system\<close>

text \<open>
  \<open>xs.sort(cmp)\<close>: the sort of the language is stable; for a comparator that is a total
  preorder every stable sort returns the list that insertion from the right returns.
\<close>

fun insert_sorted :: "('a \<Rightarrow> 'a \<Rightarrow> int) \<Rightarrow> 'a \<Rightarrow> 'a list \<Rightarrow> 'a list" where
  "insert_sorted cmp x [] = [x]"
| "insert_sorted cmp x (y # ys) =
     (if cmp x y \<le> 0 then x # y # ys else y # insert_sorted cmp x ys)"

fun sort_by :: "('a \<Rightarrow> 'a \<Rightarrow> int) \<Rightarrow> 'a list \<Rightarrow> 'a list" where
  "sort_by cmp [] = []"
| "sort_by cmp (x # xs) = insert_sorted cmp x (sort_by cmp xs)"

definition directorySet :: "jstring set" where
  "directorySet = set [
     js ''~'',
     js ''~/projects'',
     js ''~/certifications'',
     js ''~/certifications/cloud'',
     js ''~/certifications/cybersecurity'',
     js ''~/certifications/leadership'',
     js ''~/certifications/participations'',
     js ''~/certifications/programming'']"

record CertFile =
  cert_name :: jstring
  category :: jstring
  cert_content :: jstring

definition mkCert :: "jstring \<times> jstring \<times> jstring \<Rightarrow> CertFile" where
  "mkCert = (\<lambda>(n, c, t). \<lparr>cert_name = n, category = c, cert_content = t\<rparr>)"

definition certificationFiles :: "CertFile list" where
  "certificationFiles = map mkCert [
  (js ''cloudCertificate1.txt'', js ''cloud'',
    js ''Migrate MySQL Databases to Cloud SQL '' @ [8211] @ js '' Verified credential.''),
  (js ''leadershipCertificate1.txt'', js ''leadership'',
    js ''Leadership Certificate 1 '' @ [8211] @ js '' Core team leadership principles, communication, and strategic planning.''),
  (js ''leadershipCertificate2.txt'', js ''leadership'',
    js ''Leadership Certificate 2 '' @ [8211] @ js '' Advanced leadership focusing on decision-making and organizational impact.''),
  (js ''participationCertificate1.txt'', js ''participations'',
    js ''Participation Certificate 1 '' @ [8211] @ js '' Event / workshop acknowledgment.''),
  (js ''participationCertificate2.txt'', js ''participations'',
    js ''Participation Certificate 2 '' @ [8211] @ js '' Recognized contribution to program/event.''),
  (js ''participationCertificate3.txt'', js ''participations'',
    js ''Participation Certificate 3 '' @ [8211] @ js '' Recognized contribution to program/event.''),
  (js ''participationCertificate4.txt'', js ''participations'',
    js ''Participation Certificate 4 '' @ [8211] @ js '' Recognized contribution to program/event.''),
  (js ''on-going.txt'', js ''cloud'',
    js ''Additional cloud certifications in progress.''),
  (js ''on-going.txt'', js ''cybersecurity'',
    js ''Cybersecurity certifications / labs in progress.''),
  (js ''on-going.txt'', js ''leadership'',
    js ''Leadership development & training on-going.''),
  (js ''on-going.txt'', js ''participations'',
    js ''Community & event participation on-going.''),
  (js ''on-going.txt'', js ''programming'',
    js ''Advanced programming / specialization certifications in progress.'')]"

text \<open>\<open>projectFiles\<close>: name and content.\<close>

definition projectFiles :: "(jstring \<times> jstring) list" where
  "projectFiles = [
  (js ''portfolio-terminal.md'',
    js ''Interactive portfolio terminal + CTF micro puzzle + encryption visualizer.''),
  (js ''guilds.md'',
    js ''GDG On Campus UIC Guilds Platform - https://guilds.gdgocuic.org'' @ [10] @ js ''For the University Club Fair'')]"

text \<open>
  \<open>fileContents\<close>: an object built from four literal entries and the two registries;
  where a key occurs twice the later entry wins. Every key starts with \<open>~/\<close>, so no
  lookup made by the terminal reaches a property the object inherits.
\<close>

definition fileEntries :: "(jstring \<times> jstring) list" where
  "fileEntries = [
  (js ''~/about'',
    js ''This portfolio looks like a Kali terminal because that'' @ [39] @ js ''s where I think, experiment, and (carefully) break things. I like breaking concepts down, solving puzzles, and hiding a few of my own.'' @ [10] @ js ''There'' @ [39] @ js ''s a tiny CTF woven in'' @ [8212] @ js ''wander the filesystem, read files, and see what you can uncover.'' @ [10] @ js ''Current focus: cybersecurity, automation, AI, and relentless learning.'' @ [10]),
  (js ''~/experience'',
    [8226] @ js '' CCTV Technician and Administrator'' @ [10, 8226] @ js '' Freelancing Projects'' @ [10]),
  (js ''~/contact'',
    js ''Email: mailto:geoffrey@diapana.dev'' @ [10] @ js ''GitHub: https://github.com/yyerf'' @ [10]),
  (js ''~/password.txt'',
    js ''Geof'' @ [34] @ js ''fr3y'' @ [34] @ js ''!@yyerf'' @ [10] @ js ''for the CTF(?)'' @ [10])]
  @ map (\<lambda>f. (js ''~/certifications/'' @ category f @ js ''/'' @ cert_name f, cert_content f))
      certificationFiles
  @ map (\<lambda>(n, c). (js ''~/projects/'' @ n, c)) projectFiles"

definition fileContents :: "jstring \<Rightarrow> jstring option" where
  "fileContents path = map_of (rev fileEntries) path"

datatype entry_kind = Dir | File

record entry =
  name :: jstring
  ekind :: entry_kind

text \<open>\<open>path.replace(/\/+$/, '')\<close>: the path without its trailing slashes.\<close>

definition normalizePath :: "jstring \<Rightarrow> jstring" where
  "normalizePath path =
     (if path = js ''~'' then js ''~'' else rev (dropWhile (\<lambda>c. c = 47) (rev path)))"

definition categories :: "jstring list" where
  "categories = [js ''cloud'', js ''cybersecurity'', js ''leadership'', js ''participations'',
     js ''programming'']"

text \<open>The comparator of the category directories: \<open>on-going.txt\<close> after everything else.\<close>

definition ongoing_cmp :: "platform \<Rightarrow> entry \<Rightarrow> entry \<Rightarrow> int" where
  "ongoing_cmp P a b =
     (let aOngoing = (name a = js ''on-going.txt'');
          bOngoing = (name b = js ''on-going.txt'')
      in if aOngoing \<and> \<not> bOngoing then 1
         else if bOngoing \<and> \<not> aOngoing then - 1
         else localeCompare P (name a) (name b))"

definition name_cmp :: "platform \<Rightarrow> entry \<Rightarrow> entry \<Rightarrow> int" where
  "name_cmp P a b = localeCompare P (name a) (name b)"

definition baseEntries :: "entry list" where
  "baseEntries = [
     \<lparr>name = js ''about'', ekind = File\<rparr>,
     \<lparr>name = js ''certifications'', ekind = Dir\<rparr>,
     \<lparr>name = js ''contact'', ekind = File\<rparr>,
     \<lparr>name = js ''experience'', ekind = File\<rparr>,
     \<lparr>name = js ''password.txt'', ekind = File\<rparr>,
     \<lparr>name = js ''projects'', ekind = Dir\<rparr>]"

text \<open>
  The test \<open>/^~\/certifications\/(cloud|...|programming)$/\<close> holds of exactly the five
  category paths; \<open>normalized.split('/')[2]\<close> is then the category.
\<close>

definition listDirectory :: "platform \<Rightarrow> jstring \<Rightarrow> entry list" where
  "listDirectory P path =
     (let normalized = normalizePath path in
      if normalized = js ''~'' then
        map (\<lambda>e. \<lparr>name = name e, ekind = ekind e\<rparr>) (sort_by (name_cmp P) baseEntries)
      else if normalized = js ''~/certifications'' then
        sort_by (name_cmp P) (map (\<lambda>d. \<lparr>name = d, ekind = Dir\<rparr>) categories)
      else if normalized \<in> set (map (\<lambda>c. js ''~/certifications/'' @ c) categories) then
        (case drop 2 (split_on 47 normalized) of
           [] \<Rightarrow> []
         | cat # _ \<Rightarrow>
             sort_by (ongoing_cmp P)
               (map (\<lambda>f. \<lparr>name = cert_name f, ekind = File\<rparr>)
                  (filter (\<lambda>f. category f = cat) certificationFiles)))
      else if normalized = js ''~/projects'' then
        sort_by (name_cmp P) (map (\<lambda>(n, c). \<lparr>name = n, ekind = File\<rparr>) projectFiles)
      else [])"

subsection \<open>Path resolution\<close>

text \<open>\<open>current.replace(/^~\//, '')\<close>\<close>

definition stripHome :: "jstring \<Rightarrow> jstring" where
  "stripHome p = (if startsWith p (js ''~/'') then drop 2 p else p)"

text \<open>The candidate path of \<open>resolvePath\<close> for a target other than \<open>~\<close>, \<open>.\<close> and \<open>..\<close>.\<close>

definition candidateAbs :: "jstring list \<Rightarrow> jstring \<Rightarrow> jstring" where
  "candidateAbs currentSegments trimmed =
     (let fromHome = (if startsWith trimmed (js ''~/'') then drop 2 trimmed else trimmed)
      in if startsWith trimmed (js ''~/'')
         then (if fromHome \<noteq> [] then js ''~/'' @ fromHome else js ''~'')
         else js ''~/'' @ join (js ''/'') (currentSegments @ [fromHome]))"

text \<open>\<open>current === '~' ? [] : current.replace(/^~\//, '').split('/')\<close>\<close>

definition segments :: "jstring \<Rightarrow> jstring list" where
  "segments current = (if current = js ''~'' then [] else split_on 47 (stripHome current))"

text \<open>\<open>parts.slice(0, 2).join('/')\<close>, the path \<open>~/<first>\<close>.\<close>

definition firstLevel :: "jstring list \<Rightarrow> jstring" where
  "firstLevel parts = join (js ''/'') (take 2 parts)"

definition resolvePath :: "jstring \<Rightarrow> jstring \<Rightarrow> jstring" where
  "resolvePath current target =
     (let trimmed = trim target in
      if trimmed = [] then current
      else if trimmed = js ''~'' then js ''~''
      else if trimmed = js ''.'' then current
      else
        (let currentSegments = segments current
         in if trimmed = js ''..'' then
              (if currentSegments = [] then js ''~''
               else (let popped = butlast currentSegments
                     in if popped \<noteq> [] then js ''~/'' @ join (js ''/'') popped else js ''~''))
            else
              (let cand = candidateAbs currentSegments trimmed in
               if cand = js ''~'' then js ''~''
               else
                 (let parts = split_on 47 cand
                  in if firstLevel parts \<in> directorySet then
                       (if (case parts of _ # p1 # _ \<Rightarrow> p1 = js ''certifications'' | _ \<Rightarrow> False)
                           \<and> length parts = 3
                        then (let subPath = join (js ''/'') (take 3 parts)
                              in if subPath \<in> directorySet then subPath else firstLevel parts)
                        else firstLevel parts)
                     else current))))"

subsection \<open>The command interpreter\<close>

datatype line_type = Command | Output | Error

text \<open>
  A line of the terminal. The fields \<open>id\<close> and \<open>timestamp\<close> (taken from the clock) and
  \<open>animate\<close> (read by the renderer only) are left out. Fields that the puzzle's records
  name too carry a prefix here: \<open>ltype\<close>, \<open>ltext\<close> and \<open>tlines\<close> for \<open>type\<close>, \<open>content\<close> and
  \<open>lines\<close>, as \<open>cert_name\<close>, \<open>cert_content\<close> and \<open>ekind\<close> above for \<open>name\<close>, \<open>content\<close> and
  \<open>kind\<close>.
\<close>

record TerminalLine =
  ltype :: line_type
  ltext :: jstring

record terminal =
  tlines :: "TerminalLine list"
  currentInput :: jstring
  commandHistory :: "jstring list"
  currentPath :: jstring
  historyIndex :: int

definition help_output :: "jstring list" where
  "help_output = [
  js ''Available commands:'',
  js ''  cat <name>   - Show file '',
  js ''  cd <dir>     - Change directory '',
  js ''  clear        - Clear the terminal'',
  js ''  help         - Show this help message'',
  js ''  ls [path]    - List directory contents'',
  js ''  pwd          - Print current directory'',
  js ''  whoami       - Display user info'',
  []]"

definition whoami_output :: "jstring list" where
  "whoami_output = [
  js ''__avatar__'',
  js ''Hi, I'' @ [39] @ js ''m Geoffrey '' @ [8211] @ js '' a 3rd Year Computer Science student.'',
  [34] @ js ''Builder by passion, breaker by curiosity.'' @ [34],
  js ''Current Focus: Cloud (GCP), Cybersecurity fundamentals, TypeScript, Python + AI tooling.'',
  js ''Core Skills: React '' @ [183] @ js '' TypeScript '' @ [183] @ js '' Python '' @ [183] @ js '' Networking '' @ [183] @ js '' Linux '' @ [183] @ js '' Git '' @ [183] @ js '' (currently learning Laravel)'',
  js ''Legacy GitHub Pages: https://diapz.github.io'',
  js ''Current GitHub: https://github.com/yyerf'',
  js ''Type '' @ [39] @ js ''help'' @ [39] @ js '' to see all commands.'',
  []]"

text \<open>
  \<open>commands[name]\<close>: the table has the keys \<open>help\<close>, \<open>whoami\<close> and \<open>clear\<close>; it is a
  plain object, so a name that \<open>Object.prototype\<close> defines is found too, and its value has no
  \<open>execute\<close>. Of those names only \<open>constructor\<close> and \<open>__proto__\<close> are in lower case, as
  the looked-up name always is.
\<close>

datatype command_entry = Help | Whoami | Clear | Inherited

definition commands :: "jstring \<Rightarrow> command_entry option" where
  "commands n =
     (if n = js ''help'' then Some Help
      else if n = js ''whoami'' then Some Whoami
      else if n = js ''clear'' then Some Clear
      else if n = js ''constructor'' \<or> n = js ''__proto__'' then Some Inherited
      else None)"

definition out_line :: "line_type \<Rightarrow> jstring \<Rightarrow> TerminalLine" where
  "out_line k c = \<lparr>ltype = k, ltext = c\<rparr>"

text \<open>The two prompt lines that echo a command: the current path, then the trimmed input.\<close>

definition prompt_lines :: "terminal \<Rightarrow> jstring \<Rightarrow> TerminalLine list" where
  "prompt_lines T raw =
     [out_line Command ([9484, 9472, 9472] @ js ''(yyerf'' @ [12927] @ js ''portfolio)-['' @
        currentPath T @ js '']''),
      out_line Command ([9492, 9472] @ js ''$ '' @ raw)]"

text \<open>The lines the effect that runs once after mounting writes: a simulated \<open>whoami\<close>.\<close>

definition intro_lines :: "TerminalLine list" where
  "intro_lines =
     [out_line Command ([9484, 9472, 9472] @ js ''(yyerf'' @ [12927] @ js ''portfolio)-[whoami]''),
      out_line Command ([9492, 9472] @ js ''$ whoami'')]
     @ map (out_line Output) whoami_output"

definition initial_terminal :: terminal where
  "initial_terminal = \<lparr>tlines = intro_lines, currentInput = [], commandHistory = [],
     currentPath = js ''~'', historyIndex = - 1\<rparr>"

text \<open>
  \<open>executeCommand\<close>. \<open>T\<close> is the render the handler closes over. The result is the next
  state, or \<open>Inl\<close> of it where the handler throws (the updates queued before are applied).
  The names the handler refuses to run directly (\<open>about\<close>, \<open>experience\<close>, ...) are not keys of
  the command table, so that branch is never reached.
\<close>

definition executeCommand :: "platform \<Rightarrow> jstring \<Rightarrow> terminal \<Rightarrow> terminal + terminal" where
  "executeCommand P inp T =
     (let raw = trim inp in
      case split_ws raw of
        [] \<Rightarrow> Inr T
      | cmd # args \<Rightarrow>
        (let trimmedInput = toLowerCase P cmd in
         if trimmedInput = [] then Inr T
         else
           (let T1 = T\<lparr>commandHistory := commandHistory T @ [raw], historyIndex := - 1\<rparr>;
                emit = (\<lambda>ls S. S\<lparr>tlines := tlines S @ prompt_lines T raw @ ls,
                                    currentInput := []\<rparr>)
            in if trimmedInput = js ''cd'' then
                 (let target = join (js '' '') args;
                      next = resolvePath (currentPath T) target
                  in if next = currentPath T then
                       (if target \<noteq> [] \<and> target \<noteq> js ''.'' \<and> target \<noteq> js ''~''
                        then Inr (emit [out_line Error
                               (js ''bash: cd: '' @ target @ js '': No such file or directory'')] T1)
                        else Inr (emit [] T1))
                     else Inr (emit [] (T1\<lparr>currentPath := next\<rparr>)))
               else if trimmedInput = js ''pwd'' then
                 Inr (emit [out_line Output (currentPath T)] T1)
               else if trimmedInput = js ''ls'' then
                 (let targetArg = join (js '' '') args;
                      targetPath = (if targetArg \<noteq> [] then resolvePath (currentPath T) targetArg
                                    else currentPath T);
                      normalized = normalizePath targetPath;
                      entries = listDirectory P normalized;
                      encoded = join (js '' '')
                        (map (\<lambda>e. name e @ js ''|'' @
                                (case ekind e of Dir \<Rightarrow> js ''dir'' | File \<Rightarrow> js ''file''))
                           entries);
                      marker = js ''__ls__:'' @ encoded
                  in Inr (emit (if entries \<noteq> [] then [out_line Output marker] else []) T1))
               else if trimmedInput = js ''cat'' then
                 (let targetArg = join (js '' '') args in
                  if targetArg = [] then
                    Inr (emit [out_line Error (js ''cat: missing operand'')] T1)
                  else
                    (let candidate =
                           (if startsWith targetArg (js ''~/'') then targetArg
                            else if currentPath T = js ''~'' then js ''~/'' @ targetArg
                            else currentPath T @ js ''/'' @ targetArg);
                         normalized = normalizePath candidate
                     in case fileContents normalized of
                          None \<Rightarrow>
                            Inr (emit [out_line Error
                                   (js ''cat: '' @ targetArg @ js '': No such file'')] T1)
                        | Some text \<Rightarrow>
                            if text = [] then
                              Inr (emit [out_line Error
                                     (js ''cat: '' @ targetArg @ js '': No such file'')] T1)
                            else Inr (emit (map (out_line Output) (split_on 10 text)) T1)))
               else
                 (case commands trimmedInput of
                    None \<Rightarrow>
                      Inr (emit [out_line Error
                             (js ''Command not found: '' @ trimmedInput @ js ''. Type '' @ [39] @
                              js ''help'' @ [39] @ js '' for available commands.'')] T1)
                  | Some Clear \<Rightarrow> Inr (T1\<lparr>tlines := [], currentInput := []\<rparr>)
                  | Some Help \<Rightarrow> Inr (emit (map (out_line Output) help_output) T1)
                  | Some Whoami \<Rightarrow> Inr (emit (map (out_line Output) whoami_output) T1)
                  | Some Inherited \<Rightarrow> Inl T1))))"

text \<open>The state a call leaves, whether it returned or threw.\<close>

definition result_state :: "terminal + terminal \<Rightarrow> terminal" where
  "result_state res = (case res of Inl T \<Rightarrow> T | Inr T \<Rightarrow> T)"

section \<open>A platform and a store for the examples\<close>

text \<open>
  An instance of the platform on which the examples run. \<open>parseFloat\<close> reads the decimal
  digits a string starts with and is \<open>NaN\<close> where there is none; \<open>toString\<close> writes a
  natural number in decimal; the difference is the exact one; \<open>localeCompare\<close> orders by
  code units; \<open>toLowerCase\<close> maps \<open>A\<close> to \<open>Z\<close>. On the examples' inputs (strings of decimal
  digits or of letters, natural numbers, clock readings that are whole numbers of
  milliseconds, whose difference no rounding changes, names in lower-case letters and
  digits, ASCII commands) the built-ins of the language return the same.
\<close>

definition isDigit :: "nat \<Rightarrow> bool" where
  "isDigit c \<longleftrightarrow> 48 \<le> c \<and> c \<le> 57"

definition decimal_value :: "jstring \<Rightarrow> nat" where
  "decimal_value ds = foldl (\<lambda>acc c. 10 * acc + (c - 48)) 0 ds"

definition parse_decimal :: "jstring \<Rightarrow> number" where
  "parse_decimal s =
     (let ds = takeWhile isDigit s in if ds = [] then NaN else Fin (real (decimal_value ds)))"

fun dec_digits :: "nat \<Rightarrow> jstring" where
  "dec_digits n = (if n < 10 then [48 + n] else dec_digits (n div 10) @ [48 + n mod 10])"

fun compare_units :: "jstring \<Rightarrow> jstring \<Rightarrow> int" where
  "compare_units [] [] = 0"
| "compare_units [] (y # ys) = - 1"
| "compare_units (x # xs) [] = 1"
| "compare_units (x # xs) (y # ys) =
     (if x < y then - 1 else if y < x then 1 else compare_units xs ys)"

definition lower_ascii :: "nat \<Rightarrow> nat" where
  "lower_ascii c = (if 65 \<le> c \<and> c \<le> 90 then c + 32 else c)"

definition example_platform :: platform where
  "example_platform = \<lparr>
     parseFloat = parse_decimal,
     numToString = (\<lambda>x. dec_digits (nat \<lfloor>x\<rfloor>)),
     numSub = (\<lambda>a b. a - b),
     localeCompare = compare_units,
     toLowerCase = map lower_ascii\<rparr>"

text \<open>A store that works and holds no best time yet.\<close>

definition fresh_storage :: storage where
  "fresh_storage = \<lparr>item = None, getThrows = False, setThrows = False\<rparr>"

text \<open>A store that holds the best time 5000 ms, and one whose value is not a number.\<close>

definition stored_5000 :: storage where
  "stored_5000 = \<lparr>item = Some (js ''5000''), getThrows = False, setThrows = False\<rparr>"

definition stored_garbage :: storage where
  "stored_garbage = \<lparr>item = Some (js ''abc''), getThrows = False, setThrows = False\<rparr>"


section \<open>Sessions and what they show\<close>

text \<open>
  What happens to the puzzle: a line is submitted (at a reading of the clock), the Replay
  button is clicked, or the celebration effect runs. A session is a sequence of such events.
\<close>

datatype event = Line real jstring | ReplayClick | CelebrationEffect

fun step :: "platform \<Rightarrow> event \<Rightarrow> ctf \<times> storage \<Rightarrow> ctf \<times> storage" where
  "step P (Line now raw) x = onCommand P now raw x"
| "step P ReplayClick (s, st) = (replay s, st)"
| "step P CelebrationEffect (s, st) = (celebrate s, st)"

fun run :: "platform \<Rightarrow> event list \<Rightarrow> ctf \<times> storage \<Rightarrow> ctf \<times> storage" where
  "run P [] x = x"
| "run P (e # es) x = run P es (step P e x)"

text \<open>The lines a handler added to the transcript of the render \<open>r\<close>.\<close>

definition emitted :: "ctf \<Rightarrow> ctf \<Rightarrow> PuzzleLine list" where
  "emitted r s = drop (length (lines r)) (lines s)"

text \<open>A listing shows the hidden file: an output line has it among its names.\<close>

definition lists_hidden :: "PuzzleLine list \<Rightarrow> bool" where
  "lists_hidden ls \<longleftrightarrow>
     (\<exists>l \<in> set ls. kind l = Out \<and> HIDDEN_FILENAME \<in> set (split_ws (content l)))"

text \<open>
  The order of a listing. \<open>localeCompare\<close> is a parameter; a listing can only be called
  sorted where it compares consistently, that is, where "not after" is total and transitive.
  A listing is in order when the names other than \<open>on-going.txt\<close> are sorted and come before
  every \<open>on-going.txt\<close>.
\<close>

definition collation_le :: "platform \<Rightarrow> jstring \<Rightarrow> jstring \<Rightarrow> bool" where
  "collation_le P a b \<longleftrightarrow> localeCompare P a b \<le> 0"

definition consistent_collation :: "platform \<Rightarrow> bool" where
  "consistent_collation P \<longleftrightarrow>
     (\<forall>a b. collation_le P a b \<or> collation_le P b a) \<and>
     (\<forall>a b c. collation_le P a b \<longrightarrow> collation_le P b c \<longrightarrow> collation_le P a c)"

definition ongoing :: "jstring \<Rightarrow> bool" where
  "ongoing n \<longleftrightarrow> n = js ''on-going.txt''"

definition ordered_listing :: "platform \<Rightarrow> jstring list \<Rightarrow> bool" where
  "ordered_listing P names \<longleftrightarrow>
     sorted_wrt (collation_le P) (filter (\<lambda>n. \<not> ongoing n) names) \<and>
     names = filter (\<lambda>n. \<not> ongoing n) names @ filter ongoing names"

text \<open>
  The shell asks for the password only while the user is not root. This holds of the
  initial state and every event keeps it (\<open>shell_inv_run\<close> below).
\<close>

definition shell_inv :: "ctf \<Rightarrow> bool" where
  "shell_inv r \<longleftrightarrow> (awaitingPassword r \<longrightarrow> \<not> root_flag r)"

declare dec_digits.simps [simp del]

section \<open>Facts about strings\<close>

lemma split_ws_from_nonempty: "split_ws_from b s \<noteq> []"
  by (induction s arbitrary: b) (simp_all split: list.split)

lemma split_ws_nonempty: "split_ws s \<noteq> []"
  by (simp add: split_ws_def split_ws_from_nonempty)

lemma split_ws_Nil: "split_ws [] = [[]]"
  by (simp add: split_ws_def)

lemma split_ws_head_nonempty:
  assumes "split_ws (trim raw) = cmd # rest" and "cmd \<noteq> []"
  shows "trim raw \<noteq> []"
  using assms by (auto simp add: split_ws_Nil)

lemma js_inject [simp]: "js a = js b \<longleftrightarrow> a = b"
proof -
  have "inj (of_char :: char \<Rightarrow> nat)"
    by (rule injI) simp
  then show ?thesis
    unfolding js_def by (simp add: inj_map_eq_map)
qed

lemma js_eq_Nil [simp]: "js a = [] \<longleftrightarrow> a = []" "[] = js a \<longleftrightarrow> a = []"
  by (auto simp add: js_def)

lemma js_append: "js (a @ b) = js a @ js b"
  by (simp add: js_def)

section \<open>Facts about the puzzle\<close>

subsection \<open>State projections\<close>

lemma append_line_sel [simp]:
  "lines (append_line c k s) = lines s @ [\<lparr>content = c, kind = k\<rparr>]"
  "input (append_line c k s) = input s"
  "solved (append_line c k s) = solved s"
  "root_flag (append_line c k s) = root_flag s"
  "revealedHidden (append_line c k s) = revealedHidden s"
  "awaitingPassword (append_line c k s) = awaitingPassword s"
  "startTime (append_line c k s) = startTime s"
  "bestTime (append_line c k s) = bestTime s"
  "celebrated (append_line c k s) = celebrated s"
  by (simp_all add: append_line_def)

lemma begin_command_sel [simp]:
  "lines (begin_command now r) = lines r"
  "input (begin_command now r) = []"
  "solved (begin_command now r) = solved r"
  "root_flag (begin_command now r) = root_flag r"
  "revealedHidden (begin_command now r) = revealedHidden r"
  "awaitingPassword (begin_command now r) = awaitingPassword r"
  "startTime (begin_command now r) = (case startTime r of None \<Rightarrow> Some now | Some t \<Rightarrow> Some t)"
  "bestTime (begin_command now r) = bestTime r"
  "celebrated (begin_command now r) = celebrated r"
  by (simp_all add: begin_command_def Let_def split: option.splits)

lemma echo_sel [simp]:
  "lines (echo r t s) = lines s @ [\<lparr>content = promptTop r, kind = Sys\<rparr>,
      \<lparr>content = promptBottom r @ js '' '' @ t, kind = Sys\<rparr>]"
  "input (echo r t s) = input s"
  "solved (echo r t s) = solved s"
  "root_flag (echo r t s) = root_flag s"
  "revealedHidden (echo r t s) = revealedHidden s"
  "awaitingPassword (echo r t s) = awaitingPassword s"
  "startTime (echo r t s) = startTime s"
  "bestTime (echo r t s) = bestTime s"
  "celebrated (echo r t s) = celebrated s"
  by (simp_all add: echo_def)

lemma password_entry_sel [simp]:
  "lines (password_entry t s) = lines s @
     (if t = PASSWORD
      then [\<lparr>content = js ''Privilege escalation successful. Welcome root.'', kind = Root\<rparr>,
            \<lparr>content = rootRiddle, kind = Out\<rparr>]
      else [\<lparr>content = js ''Sorry, try again.'', kind = Err\<rparr>])"
  "input (password_entry t s) = input s"
  "solved (password_entry t s) = solved s"
  "root_flag (password_entry t s) = (t = PASSWORD \<or> root_flag s)"
  "revealedHidden (password_entry t s) = revealedHidden s"
  "awaitingPassword (password_entry t s) = (t \<noteq> PASSWORD \<and> awaitingPassword s)"
  "startTime (password_entry t s) = startTime s"
  "bestTime (password_entry t s) = bestTime s"
  "celebrated (password_entry t s) = celebrated s"
  by (simp_all add: password_entry_def)

subsection \<open>The structure of a command\<close>

lemma onCommand_blank: "trim raw = [] \<Longrightarrow> onCommand P now raw (r, st) = (r, st)"
  by (simp add: onCommand_def)

lemma onCommand_password:
  "trim raw \<noteq> [] \<Longrightarrow> awaitingPassword r \<Longrightarrow>
   onCommand P now raw (r, st) = (password_entry (trim raw) (begin_command now r), st)"
  by (simp add: onCommand_def Let_def)

lemma onCommand_command:
  "trim raw \<noteq> [] \<Longrightarrow> \<not> awaitingPassword r \<Longrightarrow>
   onCommand P now raw (r, st) =
     dispatch P now r (split_ws (trim raw)) (echo r (trim raw) (begin_command now r), st)"
  by (simp add: onCommand_def Let_def)

lemma dispatch_submit:
  "dispatch P now r (js ''submit'' # rest) (s, st) = submit P now r (join (js '' '') rest) (s, st)"
  by (simp add: dispatch_def)

lemma dispatch_sudo_su:
  "dispatch P now r (js ''sudo'' # js ''su'' # rest) (s, st) =
     (if root_flag r then (append_line (js ''Already root.'') Err s, st)
      else (append_line (js ''[sudo] password for yyerf:'') Sys (s\<lparr>awaitingPassword := True\<rparr>), st))"
  by (simp add: dispatch_def)

lemma submit_solved:
  "solved (fst (submit P now r arg (s, st))) = (arg = FINAL_FLAG \<or> solved s)"
  by (simp add: submit_def Let_def split: option.splits)

lemma submit_wrong:
  "arg \<noteq> FINAL_FLAG \<Longrightarrow> submit P now r arg (s, st) = (append_line (js ''Incorrect flag'') Err s, st)"
  by (simp add: submit_def)

lemma onCommand_submit:
  assumes "\<not> awaitingPassword r" and "split_ws (trim raw) = js ''submit'' # rest"
  shows "onCommand P now raw (r, st) =
    submit P now r (join (js '' '') rest) (echo r (trim raw) (begin_command now r), st)"
proof -
  have ne: "trim raw \<noteq> []"
    using assms(2) by (rule split_ws_head_nonempty) simp
  show ?thesis
    by (simp only: onCommand_command [OF ne assms(1)] assms(2) dispatch_submit)
qed

subsection \<open>Concrete lines\<close>

lemma trim_sudo_su: "trim (js ''sudo su'') = js ''sudo su''"
  by (simp add: trim_def js_def isWhiteSpace_def)

lemma split_sudo_su: "split_ws (js ''sudo su'') = [js ''sudo'', js ''su'']"
  by (simp add: split_ws_def js_def isWhiteSpace_def)

lemma trim_submit_flag: "trim (js ''submit FLAG{ur_cr@ck3d_brUh}'') = js ''submit FLAG{ur_cr@ck3d_brUh}''"
  by (simp add: trim_def js_def isWhiteSpace_def)

lemma split_submit_flag:
  "split_ws (js ''submit FLAG{ur_cr@ck3d_brUh}'') = [js ''submit'', FINAL_FLAG]"
  by (simp add: split_ws_def js_def isWhiteSpace_def FINAL_FLAG_def)

lemma submit_flag_not_password: "js ''submit FLAG{ur_cr@ck3d_brUh}'' \<noteq> PASSWORD"
  by (simp add: PASSWORD_def)

lemma initial_sel [simp]:
  "\<not> awaitingPassword initial" "\<not> root_flag initial" "\<not> solved initial"
  "\<not> revealedHidden initial" "startTime initial = None" "bestTime initial = None"
  "lines initial = [intro_line]"
  by (simp_all add: initial_def)

lemma sudo_su_initial:
  "onCommand P now (js ''sudo su'') (initial, st) =
     (append_line (js ''[sudo] password for yyerf:'') Sys
        ((echo initial (js ''sudo su'') (begin_command now initial))\<lparr>awaitingPassword := True\<rparr>), st)"
  by (simp add: onCommand_command trim_sudo_su split_sudo_su dispatch_sudo_su)

subsection \<open>What each command changes\<close>

lemma help_cmd_sel [simp]:
  "root_flag (help_cmd s) = root_flag s"
  "revealedHidden (help_cmd s) = revealedHidden s"
  "awaitingPassword (help_cmd s) = awaitingPassword s"
  "solved (help_cmd s) = solved s"
  "startTime (help_cmd s) = startTime s"
  "bestTime (help_cmd s) = bestTime s"
  by (simp_all add: help_cmd_def)

lemma doLs_sel [simp]:
  "root_flag (doLs r all s) = root_flag s"
  "revealedHidden (doLs r all s) = (root_flag r \<and> all \<or> revealedHidden s)"
  "awaitingPassword (doLs r all s) = awaitingPassword s"
  "solved (doLs r all s) = solved s"
  "startTime (doLs r all s) = startTime s"
  "bestTime (doLs r all s) = bestTime s"
  by (auto simp add: doLs_def)

lemma doCat_sel [simp]:
  "root_flag (doCat r f s) = root_flag s"
  "revealedHidden (doCat r f s) = revealedHidden s"
  "awaitingPassword (doCat r f s) = awaitingPassword s"
  "solved (doCat r f s) = solved s"
  "startTime (doCat r f s) = startTime s"
  "bestTime (doCat r f s) = bestTime s"
  by (simp_all add: doCat_def)

lemma tryCipher_sel [simp]:
  "root_flag (tryCipher v s) = root_flag s"
  "revealedHidden (tryCipher v s) = revealedHidden s"
  "awaitingPassword (tryCipher v s) = awaitingPassword s"
  "solved (tryCipher v s) = solved s"
  "startTime (tryCipher v s) = startTime s"
  "bestTime (tryCipher v s) = bestTime s"
  by (simp_all add: tryCipher_def)

lemma submit_sel [simp]:
  "root_flag (fst (submit P now r arg (s, st))) = root_flag s"
  "revealedHidden (fst (submit P now r arg (s, st))) = revealedHidden s"
  "awaitingPassword (fst (submit P now r arg (s, st))) = awaitingPassword s"
  "startTime (fst (submit P now r arg (s, st))) = startTime s"
  by (simp_all add: submit_def Let_def split: option.splits)

lemma dispatch_root [simp]:
  "root_flag (fst (dispatch P now r toks (s, st))) = root_flag s"
  by (simp add: dispatch_def Let_def split: list.splits)

lemma dispatch_revealed:
  "revealedHidden s \<Longrightarrow> revealedHidden (fst (dispatch P now r toks (s, st)))"
  by (simp add: dispatch_def Let_def split: list.splits)

lemma dispatch_startTime [simp]:
  "startTime (fst (dispatch P now r toks (s, st))) = startTime s"
  by (simp add: dispatch_def Let_def split: list.splits)

lemma onCommand_root: "root_flag r \<Longrightarrow> root_flag (fst (onCommand P now raw (r, st)))"
  by (cases "trim raw = []"; cases "awaitingPassword r")
     (simp_all add: onCommand_blank onCommand_password onCommand_command)

lemma onCommand_revealed:
  "revealedHidden r \<Longrightarrow> revealedHidden (fst (onCommand P now raw (r, st)))"
  by (cases "trim raw = []"; cases "awaitingPassword r")
     (simp_all add: onCommand_blank onCommand_password onCommand_command dispatch_revealed)

lemma step_monotone:
  "root_flag (fst x) \<Longrightarrow> root_flag (fst (step P e x))"
  "revealedHidden (fst x) \<Longrightarrow> revealedHidden (fst (step P e x))"
  by (cases e; cases x; simp add: onCommand_root onCommand_revealed replay_def celebrate_def)+

lemma dispatch_ls:
  "dispatch P now r (js ''ls'' # rest) (s, st) = (doLs r (js ''-a'' \<in> set rest) s, st)"
  by (simp add: dispatch_def)

lemma dispatch_cat:
  "dispatch P now r (js ''cat'' # rest) (s, st) =
     (if join (js '' '') rest = [] then (append_line (js ''cat: missing operand'') Err s, st)
      else (doCat r (join (js '' '') rest) s, st))"
  by (simp add: dispatch_def)

lemma split_listing_plain: "split_ws (join (js ''  '') base) = [READ_ME]"
  by (simp add: base_def READ_ME_def split_ws_def js_def isWhiteSpace_def)

lemma split_listing_all:
  "split_ws (join (js ''  '') (base @ [HIDDEN_FILENAME])) = [READ_ME, HIDDEN_FILENAME]"
  by (simp add: base_def READ_ME_def HIDDEN_FILENAME_def split_ws_def js_def isWhiteSpace_def)

lemma hidden_not_readme: "HIDDEN_FILENAME \<noteq> READ_ME"
  by (simp add: READ_ME_def HIDDEN_FILENAME_def)

lemma split_password: "split_ws PASSWORD = [PASSWORD]"
  by (simp add: PASSWORD_def split_ws_def js_def isWhiteSpace_def)

lemma doLs_lines:
  "lines (doLs r all s) = lines s @
     [\<lparr>content = join (js ''  '') (if root_flag r \<and> all then base @ [HIDDEN_FILENAME] else base),
       kind = Out\<rparr>]"
  by (simp add: doLs_def)

lemma doLs_revealed:
  "revealedHidden (doLs r all s) = (root_flag r \<and> all \<or> revealedHidden s)"
  by (auto simp add: doLs_def)

subsection \<open>The invariant of the password phase\<close>

lemma dispatch_awaiting:
  "awaitingPassword (fst (dispatch P now r toks (s, st))) \<Longrightarrow> awaitingPassword s \<or> \<not> root_flag r"
  by (simp add: dispatch_def Let_def split: list.splits if_splits)

lemma shell_inv_onCommand:
  assumes "shell_inv r"
  shows "shell_inv (fst (onCommand P now raw (r, st)))"
proof (cases "trim raw = []")
  case True
  then show ?thesis using assms by (simp add: onCommand_blank)
next
  case ne: False
  show ?thesis
  proof (cases "awaitingPassword r")
    case True
    then show ?thesis
      using assms ne by (simp add: onCommand_password shell_inv_def)
  next
    case False
    have "\<not> root_flag r"
      if "awaitingPassword (fst (dispatch P now r (split_ws (trim raw))
            (echo r (trim raw) (begin_command now r), st)))"
      using dispatch_awaiting [OF that] False by simp
    then show ?thesis
      using ne False by (auto simp add: onCommand_command shell_inv_def)
  qed
qed

lemma shell_inv_initial: "shell_inv initial" "shell_inv (loadBest P st initial)"
  by (simp_all add: shell_inv_def loadBest_def split: option.splits)

lemma shell_inv_run: "shell_inv (fst x) \<Longrightarrow> shell_inv (fst (run P es x))"
proof (induction es arbitrary: x)
  case Nil
  then show ?case by simp
next
  case (Cons e es)
  have "shell_inv (fst (step P e x))"
    using Cons.prems
    by (cases e; cases x) (simp_all add: shell_inv_onCommand, simp_all add: shell_inv_def replay_def celebrate_def)
  then show ?case by (simp add: Cons.IH)
qed

subsection \<open>The timer and the store\<close>

lemma onCommand_startTime:
  "startTime (fst (onCommand P now raw (r, st))) =
     (if trim raw = [] then startTime r
      else case startTime r of None \<Rightarrow> Some now | Some t \<Rightarrow> Some t)"
  by (cases "trim raw = []"; cases "awaitingPassword r")
     (simp_all add: onCommand_blank onCommand_password onCommand_command)

lemma step_startTime_keep:
  "startTime (fst x) = Some t \<Longrightarrow> e \<noteq> ReplayClick \<Longrightarrow> startTime (fst (step P e x)) = Some t"
  by (cases e; cases x) (simp_all add: onCommand_startTime celebrate_def)

lemma run_startTime_keep:
  "startTime (fst x) = Some t \<Longrightarrow> ReplayClick \<notin> set es \<Longrightarrow> startTime (fst (run P es x)) = Some t"
proof (induction es arbitrary: x)
  case Nil
  then show ?case by simp
next
  case (Cons e es)
  from Cons.prems have "e \<noteq> ReplayClick"
    by auto
  with Cons.prems have "startTime (fst (step P e x)) = Some t"
    by (simp add: step_startTime_keep)
  with Cons.prems show ?case by (simp add: Cons.IH)
qed

lemma run_startTime_first:
  assumes "startTime r0 = None" and "trim c0 \<noteq> []" and "ReplayClick \<notin> set es"
  shows "startTime (fst (run P (Line t0 c0 # es) (r0, st0))) = Some t0"
proof -
  have "startTime (fst (onCommand P t0 c0 (r0, st0))) = Some t0"
    using assms(1,2) by (simp add: onCommand_startTime)
  then show ?thesis
    using assms(3) by (simp add: run_startTime_keep)
qed

lemma submit_flag_timed:
  assumes "startTime r = Some t0"
  shows "submit P now r FINAL_FLAG (s, st) =
    (let s1 = (append_line ([10004] @ js '' Correct flag. Challenge complete.'') Root s)
                \<lparr>solved := True\<rparr>
     in if beats (numSub P now t0) (existingBest P r st)
        then (s1\<lparr>bestTime := Some (Fin (numSub P now t0))\<rparr>,
              trySetItem (numToString P (numSub P now t0)) st)
        else (s1\<lparr>bestTime := existingBest P r st\<rparr>, st))"
  using assms by (simp add: submit_def Let_def)

lemma elapsed_equal_best_keeps_store:
  assumes "startTime r = Some t0" and "existingBest P r st = Some (Fin (numSub P now t0))"
  shows "snd (submit P now r FINAL_FLAG (s, st)) = st"
  using assms by (simp add: submit_flag_timed beats_def Let_def)

lemma submit_flag_untimed:
  assumes "startTime r = None"
  shows "submit P now r FINAL_FLAG (s, st) =
    ((append_line ([10004] @ js '' Correct flag. Challenge complete.'') Root s)\<lparr>solved := True\<rparr>, st)"
  using assms by (simp add: submit_def Let_def)

lemma beats_iff:
  "beats d best \<longleftrightarrow> best = None \<or> (\<exists>b. best = Some b \<and> num_lt (Fin d) b)"
  by (cases best) (simp_all add: beats_def)

lemma parse_5000: "parse_decimal (js ''5000'') = Fin 5000"
  by (simp add: parse_decimal_def js_def isDigit_def decimal_value_def)

lemma parse_abc: "parse_decimal (js ''abc'') = NaN"
  by (simp add: parse_decimal_def js_def isDigit_def)

lemma digits_3000: "dec_digits 3000 = js ''3000''"
  by (simp add: dec_digits.simps js_def)

lemma example_platform_sel [simp]:
  "parseFloat example_platform = parse_decimal"
  "numToString example_platform x = dec_digits (nat \<lfloor>x\<rfloor>)"
  "numSub example_platform a b = a - b"
  "localeCompare example_platform = compare_units"
  "toLowerCase example_platform = map lower_ascii"
  by (simp_all add: example_platform_def)

lemma example_stores_sel [simp]:
  "item stored_5000 = Some (js ''5000'')" "\<not> getThrows stored_5000" "\<not> setThrows stored_5000"
  "item stored_garbage = Some (js ''abc'')" "\<not> getThrows stored_garbage"
  "\<not> setThrows stored_garbage"
  "item fresh_storage = None" "\<not> getThrows fresh_storage" "\<not> setThrows fresh_storage"
  by (simp_all add: stored_5000_def stored_garbage_def fresh_storage_def)

lemma trySetItem_sel [simp]:
  "item (trySetItem v st) = (if setThrows st then item st else Some v)"
  "getThrows (trySetItem v st) = getThrows st"
  "setThrows (trySetItem v st) = setThrows st"
  by (simp_all add: trySetItem_def setItem_def)

lemma readBest_examples:
  "readBest example_platform stored_5000 = Some (Fin 5000)"
  "readBest example_platform stored_garbage = Some NaN"
  "readBest P fresh_storage = None"
  by (simp_all add: readBest_def getItem_def parse_5000 parse_abc)

lemma loadBest_examples:
  "loadBest example_platform stored_5000 initial = initial\<lparr>bestTime := Some (Fin 5000)\<rparr>"
  "loadBest example_platform stored_garbage initial = initial\<lparr>bestTime := Some NaN\<rparr>"
  "loadBest P fresh_storage initial = initial"
  by (simp_all add: loadBest_def readBest_examples)

lemma trim_ls: "trim (js ''ls'') = js ''ls''"
  by (simp add: trim_def js_def isWhiteSpace_def)

lemma split_ls: "split_ws (js ''ls'') = [js ''ls'']"
  by (simp add: split_ws_def js_def isWhiteSpace_def)

lemma ls_command:
  "\<not> awaitingPassword r \<Longrightarrow>
   onCommand P now (js ''ls'') (r, st) = (doLs r False (echo r (js ''ls'') (begin_command now r)), st)"
  by (simp add: onCommand_command trim_ls split_ls dispatch_ls)

lemma submit_after_ls:
  assumes "\<not> awaitingPassword r" and "startTime r = None"
  shows "onCommand P now (js ''submit FLAG{ur_cr@ck3d_brUh}'') (onCommand P t0 (js ''ls'') (r, st)) =
    (let r1 = doLs r False (echo r (js ''ls'') (begin_command t0 r));
         s1 = (append_line ([10004] @ js '' Correct flag. Challenge complete.'') Root
                 (echo r1 (js ''submit FLAG{ur_cr@ck3d_brUh}'') (begin_command now r1)))
                \<lparr>solved := True\<rparr>
     in if beats (numSub P now t0) (existingBest P r1 st)
        then (s1\<lparr>bestTime := Some (Fin (numSub P now t0))\<rparr>,
              trySetItem (numToString P (numSub P now t0)) st)
        else (s1\<lparr>bestTime := existingBest P r1 st\<rparr>, st))"
proof -
  let ?r1 = "doLs r False (echo r (js ''ls'') (begin_command t0 r))"
  have a: "\<not> awaitingPassword ?r1" and b: "startTime ?r1 = Some t0"
    using assms by simp_all
  have "onCommand P now (js ''submit FLAG{ur_cr@ck3d_brUh}'') (?r1, st) =
      submit P now ?r1 FINAL_FLAG
        (echo ?r1 (js ''submit FLAG{ur_cr@ck3d_brUh}'') (begin_command now ?r1), st)"
    using onCommand_submit [of ?r1 "js ''submit FLAG{ur_cr@ck3d_brUh}''" "[FINAL_FLAG]" P now st] a
    by (simp add: trim_submit_flag split_submit_flag)
  then show ?thesis
    by (simp only: ls_command [OF assms(1)] submit_flag_timed [OF b] Let_def)
qed

lemma readBest_none:
  "getThrows st \<or> item st = None \<or> item st = Some [] \<Longrightarrow> readBest P st = None"
  by (auto simp add: readBest_def getItem_def)

lemma write_failure_swallowed:
  assumes "setThrows st" and "startTime r = Some t0"
  shows "snd (submit P now r FINAL_FLAG (s, st)) = st \<and>
    solved (fst (submit P now r FINAL_FLAG (s, st))) \<and>
    lines (fst (submit P now r FINAL_FLAG (s, st))) =
      lines s @ [\<lparr>content = [10004] @ js '' Correct flag. Challenge complete.'', kind = Root\<rparr>]"
  using assms by (simp add: submit_flag_timed Let_def trySetItem_def setItem_def)

lemma trim_ls_a: "trim (js ''ls -a'') = js ''ls -a''"
  by (simp add: trim_def js_def isWhiteSpace_def)

lemma split_ls_a: "split_ws (js ''ls -a'') = [js ''ls'', js ''-a'']"
  by (simp add: split_ws_def js_def isWhiteSpace_def)

lemma trim_cat_shadow: "trim (js ''cat .shadow'') = js ''cat .shadow''"
  by (simp add: trim_def js_def isWhiteSpace_def)

lemma split_cat_shadow: "split_ws (js ''cat .shadow'') = [js ''cat'', HIDDEN_FILENAME]"
  by (simp add: split_ws_def js_def isWhiteSpace_def HIDDEN_FILENAME_def)

lemma trim_hunter2: "trim (js ''hunter2'') = js ''hunter2''"
  by (simp add: trim_def js_def isWhiteSpace_def)

lemma trim_letmein: "trim (js ''letmein'') = js ''letmein''"
  by (simp add: trim_def js_def isWhiteSpace_def)

lemma trim_padded_password: "trim (PASSWORD @ js '' '') = PASSWORD"
  by (simp add: trim_def PASSWORD_def js_def isWhiteSpace_def)

lemma password_nonempty: "PASSWORD \<noteq> []"
  by (simp add: PASSWORD_def)

section \<open>Facts about the terminal\<close>

subsection \<open>Paths\<close>

lemma split_on_nonempty: "split_on c s \<noteq> []"
  by (induction s) (simp_all split: list.split)

lemma join_split_on: "join [c] (split_on c s) = s"
proof (induction s)
  case Nil
  show ?case by simp
next
  case (Cons x xs)
  obtain f fs where sp: "split_on c xs = f # fs"
    using split_on_nonempty [of c xs] by (cases "split_on c xs") auto
  show ?case
  proof (cases "x = c")
    case True
    then show ?thesis using Cons sp by simp
  next
    case False
    then show ?thesis using Cons sp by (cases fs) simp_all
  qed
qed

lemma slash: "js ''/'' = [47]"
  by (simp add: js_def)

lemma home_registered: "js ''~'' \<in> directorySet"
  by (simp add: directorySet_def)

lemma parent_registered:
  assumes "current \<in> directorySet"
  shows "(if segments current = [] then js ''~''
          else if butlast (segments current) \<noteq> []
               then js ''~/'' @ join (js ''/'') (butlast (segments current)) else js ''~'')
         \<in> directorySet"
proof -
  from assms consider
      "current = js ''~''" | "current = js ''~/projects''" | "current = js ''~/certifications''"
    | "current = js ''~/certifications/cloud''" | "current = js ''~/certifications/cybersecurity''"
    | "current = js ''~/certifications/leadership''"
    | "current = js ''~/certifications/participations''"
    | "current = js ''~/certifications/programming''"
    by (auto simp add: directorySet_def)
  then show ?thesis
    by cases
      (simp_all add: segments_def stripHome_def startsWith_def js_def directorySet_def)
qed

lemma three_parts:
  assumes "length parts = 3"
  shows "(case parts of _ # p1 # _ \<Rightarrow> p1 = c | _ \<Rightarrow> False) \<longleftrightarrow> parts ! 1 = c"
proof -
  from assms obtain a b d where "parts = [a, b, d]"
    by (cases parts; cases "tl parts"; cases "tl (tl parts)") auto
  then show ?thesis by simp
qed

lemmas resolve_eval = resolvePath_def trim_def js_def isWhiteSpace_def candidateAbs_def
  startsWith_def directorySet_def segments_def firstLevel_def stripHome_def

subsection \<open>The \<open>cd\<close> command\<close>

lemma cd_command:
  assumes "split_ws (trim inp) = cmd # args" and "toLowerCase P cmd = js ''cd''"
  shows "executeCommand P inp T =
    Inr (T\<lparr>commandHistory := commandHistory T @ [trim inp], historyIndex := - 1,
          currentPath := resolvePath (currentPath T) (join (js '' '') args), currentInput := [],
          tlines := tlines T @ prompt_lines T (trim inp) @
            (if resolvePath (currentPath T) (join (js '' '') args) = currentPath T \<and>
                join (js '' '') args \<noteq> [] \<and> join (js '' '') args \<noteq> js ''.'' \<and>
                join (js '' '') args \<noteq> js ''~''
             then [out_line Error
                     (js ''bash: cd: '' @ join (js '' '') args @ js '': No such file or directory'')]
             else [])\<rparr>)"
  using assms unfolding executeCommand_def Let_def by auto

lemma trim_cd_nonexistent: "trim (js ''cd nonexistent-dir'') = js ''cd nonexistent-dir''"
  by (simp add: trim_def js_def isWhiteSpace_def)

lemma split_cd_nonexistent:
  "split_ws (js ''cd nonexistent-dir'') = [js ''cd'', js ''nonexistent-dir'']"
  by (simp add: split_ws_def js_def isWhiteSpace_def)

lemma lower_cd: "map lower_ascii (js ''cd'') = js ''cd''"
  by (simp add: js_def lower_ascii_def)

lemma resolve_nonexistent: "resolvePath (js ''~'') (js ''nonexistent-dir'') = js ''~''"
  by (simp add: resolve_eval)

lemma initial_terminal_sel [simp]:
  "currentPath initial_terminal = js ''~''" "tlines initial_terminal = intro_lines"
  "commandHistory initial_terminal = []"
  by (simp_all add: initial_terminal_def)

lemma trim_cd_projects: "trim (js ''cd projects'') = js ''cd projects''"
  by (simp add: trim_def js_def isWhiteSpace_def)

lemma split_cd_projects: "split_ws (js ''cd projects'') = [js ''cd'', js ''projects'']"
  by (simp add: split_ws_def js_def isWhiteSpace_def)

lemma resolve_projects: "resolvePath (js ''~'') (js ''projects'') = js ''~/projects''"
  by (simp add: resolve_eval)

lemma trim_cd_nowhere: "trim (js ''cd nowhere'') = js ''cd nowhere''"
  by (simp add: trim_def js_def isWhiteSpace_def)

lemma split_cd_nowhere: "split_ws (js ''cd nowhere'') = [js ''cd'', js ''nowhere'']"
  by (simp add: split_ws_def js_def isWhiteSpace_def)

lemma resolve_nowhere:
  "resolvePath (js ''~/certifications/cloud'') (js ''nowhere'') = js ''~/certifications''"
  by (simp add: resolve_eval)

subsection \<open>Sorting\<close>

lemma set_insert_sorted: "set (insert_sorted cmp x ys) = insert x (set ys)"
  by (induction ys) auto

lemma set_sort_by: "set (sort_by cmp xs) = set xs"
  by (induction xs) (simp_all add: set_insert_sorted)

lemma sorted_insert_sorted:
  assumes total: "\<And>a b. cmp a b \<le> 0 \<or> cmp b a \<le> 0"
    and trans: "\<And>a b c. cmp a b \<le> 0 \<Longrightarrow> cmp b c \<le> 0 \<Longrightarrow> cmp a c \<le> 0"
    and "sorted_wrt (\<lambda>a b. cmp a b \<le> 0) ys"
  shows "sorted_wrt (\<lambda>a b. cmp a b \<le> 0) (insert_sorted cmp x ys)"
  using assms(3)
proof (induction ys)
  case Nil
  show ?case by simp
next
  case (Cons y ys)
  show ?case
  proof (cases "cmp x y \<le> 0")
    case True
    have "cmp x z \<le> 0" if "z \<in> set ys" for z
      using that Cons.prems True trans [of x y z] by simp
    then show ?thesis using True Cons.prems by simp
  next
    case False
    then have "cmp y x \<le> 0" using total [of x y] by simp
    then show ?thesis
      using False Cons by (auto simp add: set_insert_sorted)
  qed
qed

lemma sorted_sort_by:
  assumes "\<And>a b. cmp a b \<le> 0 \<or> cmp b a \<le> 0"
    and "\<And>a b c. cmp a b \<le> 0 \<Longrightarrow> cmp b c \<le> 0 \<Longrightarrow> cmp a c \<le> 0"
  shows "sorted_wrt (\<lambda>a b. cmp a b \<le> 0) (sort_by cmp xs)"
proof (induction xs)
  case Nil
  show ?case by simp
next
  case (Cons x xs)
  show ?case
    using sorted_insert_sorted [of cmp "sort_by cmp xs" x] assms Cons by simp
qed

lemma sorted_by_name:
  assumes "consistent_collation P"
  shows "sorted_wrt (collation_le P) (map name (sort_by (name_cmp P) es))"
proof -
  have "sorted_wrt (\<lambda>a b. name_cmp P a b \<le> 0) (sort_by (name_cmp P) es)"
  proof (rule sorted_sort_by)
    show "name_cmp P a b \<le> 0 \<or> name_cmp P b a \<le> 0" for a b
      using assms by (simp add: consistent_collation_def collation_le_def name_cmp_def)
    show "name_cmp P a c \<le> 0" if "name_cmp P a b \<le> 0" "name_cmp P b c \<le> 0" for a b c
      using assms that unfolding consistent_collation_def collation_le_def name_cmp_def
      by blast
  qed
  then show ?thesis
    by (simp add: sorted_wrt_map name_cmp_def collation_le_def)
qed

lemma ongoing_cmp_le:
  "ongoing_cmp P a b \<le> 0 \<longleftrightarrow>
     \<not> (ongoing (name a) \<and> \<not> ongoing (name b)) \<and>
     (ongoing (name b) \<and> \<not> ongoing (name a) \<or> collation_le P (name a) (name b))"
  by (auto simp add: ongoing_cmp_def ongoing_def collation_le_def Let_def)

lemma sorted_by_ongoing:
  assumes "consistent_collation P"
  shows "sorted_wrt (\<lambda>a b. ongoing_cmp P a b \<le> 0) (sort_by (ongoing_cmp P) es)"
proof (rule sorted_sort_by)
  show "ongoing_cmp P a b \<le> 0 \<or> ongoing_cmp P b a \<le> 0" for a b
    using assms unfolding ongoing_cmp_le consistent_collation_def by blast
  show "ongoing_cmp P a c \<le> 0" if "ongoing_cmp P a b \<le> 0" "ongoing_cmp P b c \<le> 0" for a b c
    using assms that unfolding ongoing_cmp_le consistent_collation_def by blast
qed

lemma ongoing_last:
  assumes "sorted_wrt (\<lambda>a b. \<not> (ongoing a \<and> \<not> ongoing b)) ns"
  shows "ns = filter (\<lambda>n. \<not> ongoing n) ns @ filter ongoing ns"
  using assms
proof (induction ns)
  case Nil
  show ?case by simp
next
  case (Cons n ns)
  show ?case
  proof (cases "ongoing n")
    case True
    then have "\<forall>m \<in> set ns. ongoing m" using Cons.prems by simp
    then have "filter (\<lambda>n. \<not> ongoing n) ns = []" "filter ongoing ns = ns"
      by (simp_all add: filter_empty_conv)
    then show ?thesis using True by simp
  next
    case False
    then show ?thesis using Cons by simp
  qed
qed

lemma ordered_by_ongoing:
  assumes "consistent_collation P"
  shows "ordered_listing P (map name (sort_by (ongoing_cmp P) es))"
proof -
  let ?ns = "map name (sort_by (ongoing_cmp P) es)"
  let ?R = "\<lambda>a b. \<not> (ongoing a \<and> \<not> ongoing b) \<and> (ongoing b \<and> \<not> ongoing a \<or> collation_le P a b)"
  have s: "sorted_wrt ?R ?ns"
    using sorted_by_ongoing [OF assms, of es] by (simp add: sorted_wrt_map ongoing_cmp_le)
  have "sorted_wrt (\<lambda>a b. \<not> (ongoing a \<and> \<not> ongoing b)) ?ns"
    by (rule sorted_wrt_mono_rel [OF _ s]) simp
  then have split: "?ns = filter (\<lambda>n. \<not> ongoing n) ?ns @ filter ongoing ?ns"
    by (rule ongoing_last)
  have "sorted_wrt ?R (filter (\<lambda>n. \<not> ongoing n) ?ns)"
    using s by (rule sorted_wrt_filter)
  then have "sorted_wrt (collation_le P) (filter (\<lambda>n. \<not> ongoing n) ?ns)"
    by (rule sorted_wrt_mono_rel [rotated]) auto
  then show ?thesis
    using split by (simp add: ordered_listing_def)
qed

lemma ordered_without_ongoing:
  assumes "sorted_wrt (collation_le P) ns" and "\<forall>n \<in> set ns. \<not> ongoing n"
  shows "ordered_listing P ns"
proof -
  have "filter (\<lambda>n. \<not> ongoing n) ns = ns" "filter ongoing ns = []"
    using assms(2) by (simp_all add: filter_empty_conv)
  then show ?thesis using assms(1) by (simp add: ordered_listing_def)
qed

lemma fixed_names_not_ongoing:
  "\<forall>n \<in> name ` set baseEntries. \<not> ongoing n"
  "\<forall>n \<in> set categories. \<not> ongoing n"
  "\<forall>n \<in> fst ` set projectFiles. \<not> ongoing n"
  by (simp_all add: baseEntries_def categories_def projectFiles_def ongoing_def)

lemma compare_units_total: "compare_units a b \<le> 0 \<or> compare_units b a \<le> 0"
  by (induction a b rule: compare_units.induct) auto

lemma compare_units_trans:
  "compare_units a b \<le> 0 \<Longrightarrow> compare_units b c \<le> 0 \<Longrightarrow> compare_units a c \<le> 0"
proof (induction a b arbitrary: c rule: compare_units.induct)
  case 1
  then show ?case by simp
next
  case (2 y ys)
  then show ?case by (cases c) simp_all
next
  case (3 x xs)
  then show ?case by simp
next
  case (4 x xs y ys)
  show ?case
  proof (cases c)
    case Nil
    then show ?thesis using 4 by simp
  next
    case (Cons z zs)
    then show ?thesis
      using "4.prems" "4.IH" [of zs] by (auto split: if_splits)
  qed
qed

lemma example_collation: "consistent_collation example_platform"
  unfolding consistent_collation_def collation_le_def
  using compare_units_total compare_units_trans by (simp add: example_platform_def)

lemma cloud_listing:
  "map name (listDirectory example_platform (js ''~/certifications/cloud'')) =
     [js ''cloudCertificate1.txt'', js ''on-going.txt'']"
  by (simp add: listDirectory_def normalizePath_def categories_def certificationFiles_def
        mkCert_def ongoing_cmp_def example_platform_def js_def Let_def)

section \<open>Flag submission\<close>

text \<open>
  Claim C1, as the code has it. When the shell is not waiting for the sudo password, a line
  whose first token is \<open>submit\<close> marks the puzzle solved if and only if the rest of the
  line, its tokens joined by single spaces, is the flag literal; nothing else of the state
  is consulted (the state records no acceptance of a cipher). On a mismatch the transcript
  gains the two prompt lines and exactly one error line, \<open>Incorrect flag\<close>, and the solved
  status stays as it was.
\<close>

theorem submit_solves_iff_flag:
  assumes "\<not> awaitingPassword r" and "split_ws (trim raw) = js ''submit'' # rest"
  shows "solved (fst (onCommand P now raw (r, st))) = (join (js '' '') rest = FINAL_FLAG \<or> solved r)
    \<and> (join (js '' '') rest \<noteq> FINAL_FLAG \<longrightarrow>
         lines (fst (onCommand P now raw (r, st))) =
           lines r @ [\<lparr>content = promptTop r, kind = Sys\<rparr>,
                      \<lparr>content = promptBottom r @ js '' '' @ trim raw, kind = Sys\<rparr>,
                      \<lparr>content = js ''Incorrect flag'', kind = Err\<rparr>]
         \<and> solved (fst (onCommand P now raw (r, st))) = solved r)"
  unfolding onCommand_submit [OF assms]
  by (simp add: submit_solved submit_wrong)

theorem submit_solves_iff_flag_witness:
  "\<not> awaitingPassword initial \<and>
   split_ws (trim (js ''submit FLAG{ur_cr@ck3d_brUh}'')) = js ''submit'' # [FINAL_FLAG] \<and>
   solved (fst (onCommand example_platform 1 (js ''submit FLAG{ur_cr@ck3d_brUh}'')
     (initial, fresh_storage)))"
  using submit_solves_iff_flag [of initial "js ''submit FLAG{ur_cr@ck3d_brUh}''" "[FINAL_FLAG]"
      example_platform 1 fresh_storage]
  by (simp add: trim_submit_flag split_submit_flag)

text \<open>
  The claim as stated, for every input line, fails while the shell waits for the password:
  after \<open>sudo su\<close> the line \<open>submit FLAG{ur_cr@ck3d_brUh}\<close> is taken as a password attempt,
  answered by \<open>Sorry, try again.\<close>, and the puzzle is not solved.
\<close>

theorem submit_while_awaiting_password:
  "split_ws (trim (js ''submit FLAG{ur_cr@ck3d_brUh}'')) = [js ''submit'', FINAL_FLAG] \<and>
   \<not> solved (fst (onCommand example_platform 1 (js ''submit FLAG{ur_cr@ck3d_brUh}'')
         (onCommand example_platform 0 (js ''sudo su'') (initial, fresh_storage)))) \<and>
   last (lines (fst (onCommand example_platform 1 (js ''submit FLAG{ur_cr@ck3d_brUh}'')
         (onCommand example_platform 0 (js ''sudo su'') (initial, fresh_storage))))) =
     \<lparr>content = js ''Sorry, try again.'', kind = Err\<rparr>"
  by (simp add: sudo_su_initial onCommand_password trim_submit_flag split_submit_flag
        submit_flag_not_password)

section \<open>The hidden file in listings\<close>

text \<open>
  Claim C2. In every state the shell can reach (\<open>shell_inv\<close>), for a line whose first token
  is \<open>ls\<close>: the hidden file name is listed in the output of that command if and only if
  the user is root and \<open>-a\<close> is among the argument tokens; the puzzle has the one directory
  \<open>~\<close> (\<open>cwd\<close> has no setter and \<open>ls\<close> reads no path), so the listing target is always the
  root directory. Whenever the name is listed, \<open>revealedHidden\<close> is true after the command.
\<close>

theorem ls_shows_hidden_iff_root_and_all:
  assumes "shell_inv r" and "split_ws (trim raw) = js ''ls'' # rest"
  shows "(lists_hidden (emitted r (fst (onCommand P now raw (r, st)))) \<longleftrightarrow>
          root_flag r \<and> js ''-a'' \<in> set rest \<and> cwd = js ''~'') \<and>
         (lists_hidden (emitted r (fst (onCommand P now raw (r, st)))) \<longrightarrow>
          revealedHidden (fst (onCommand P now raw (r, st))))"
proof -
  have ne: "trim raw \<noteq> []"
    using assms(2) by (rule split_ws_head_nonempty) simp
  show ?thesis
  proof (cases "awaitingPassword r")
    case True
    then have nr: "\<not> root_flag r" using assms(1) by (simp add: shell_inv_def)
    have "PASSWORD \<noteq> js ''ls''"
      by (simp add: PASSWORD_def)
    then have "trim raw \<noteq> PASSWORD"
      using assms(2) by (auto simp add: split_password)
    then show ?thesis
      using True nr by (simp add: onCommand_password ne emitted_def lists_hidden_def)
  next
    case False
    then show ?thesis
      by (simp add: onCommand_command ne assms(2) dispatch_ls emitted_def lists_hidden_def
            doLs_lines doLs_revealed split_listing_plain split_listing_all hidden_not_readme
            cwd_def)
  qed
qed

theorem ls_shows_hidden_iff_root_and_all_witness:
  "shell_inv (initial\<lparr>root_flag := True\<rparr>) \<and>
   split_ws (trim (js ''ls -a'')) = js ''ls'' # [js ''-a''] \<and>
   lists_hidden (emitted (initial\<lparr>root_flag := True\<rparr>)
     (fst (onCommand example_platform 3 (js ''ls -a'')
        (initial\<lparr>root_flag := True\<rparr>, fresh_storage)))) \<and>
   revealedHidden (fst (onCommand example_platform 3 (js ''ls -a'')
        (initial\<lparr>root_flag := True\<rparr>, fresh_storage)))"
  using ls_shows_hidden_iff_root_and_all [of "initial\<lparr>root_flag := True\<rparr>" "js ''ls -a''"
      "[js ''-a'']" example_platform 3 fresh_storage]
  by (simp add: shell_inv_def trim_ls_a split_ls_a cwd_def)

section \<open>Reading the hidden file\<close>

text \<open>
  Claim C3. \<open>cat\<close> of the hidden file has exactly one of three outcomes, decided by the two
  flags: not root, the error line \<open>cat: .shadow: No such file or directory\<close>; root before
  the reveal, the different error line \<open>Permission denied (list with -a after
  escalation).\<close>; root after the reveal, the cipher riddle as output. In command mode the
  line \<open>cat .shadow\<close> reaches \<open>doCat\<close> after the two prompt lines.
\<close>

theorem cat_hidden_outcomes:
  "doCat r HIDDEN_FILENAME s =
     (if \<not> root_flag r
      then append_line (js ''cat: .shadow: No such file or directory'') Err s
      else if \<not> revealedHidden r
      then append_line (js ''Permission denied (list with -a after escalation).'') Err s
      else append_line cipherRiddle Out s) \<and>
   js ''cat: .shadow: No such file or directory'' \<noteq>
     js ''Permission denied (list with -a after escalation).'' \<and>
   (\<not> awaitingPassword r \<and> split_ws (trim raw) = js ''cat'' # rest \<and>
    join (js '' '') rest = HIDDEN_FILENAME \<longrightarrow>
    onCommand P now raw (r, st) =
      (doCat r HIDDEN_FILENAME (echo r (trim raw) (begin_command now r)), st))"
proof -
  have a: "js ''cat: '' @ HIDDEN_FILENAME @ js '': No such file or directory'' =
      js ''cat: .shadow: No such file or directory''"
    by (simp add: HIDDEN_FILENAME_def js_def)
  have b: "HIDDEN_FILENAME \<noteq> []"
    by (simp add: HIDDEN_FILENAME_def)
  have c: "trim raw \<noteq> []" if "split_ws (trim raw) = js ''cat'' # rest"
    using that by (rule split_ws_head_nonempty) simp
  show ?thesis
    by (simp add: doCat_def hidden_not_readme a b c onCommand_command dispatch_cat)
qed

theorem cat_hidden_outcomes_witness:
  "\<not> awaitingPassword (initial\<lparr>root_flag := True, revealedHidden := True\<rparr>) \<and>
   split_ws (trim (js ''cat .shadow'')) = js ''cat'' # [HIDDEN_FILENAME] \<and>
   join (js '' '') [HIDDEN_FILENAME] = HIDDEN_FILENAME \<and>
   last (lines (fst (onCommand example_platform 4 (js ''cat .shadow'')
     (initial\<lparr>root_flag := True, revealedHidden := True\<rparr>, fresh_storage)))) =
     \<lparr>content = cipherRiddle, kind = Out\<rparr>"
  using cat_hidden_outcomes [of "initial\<lparr>root_flag := True, revealedHidden := True\<rparr>"
      "echo (initial\<lparr>root_flag := True, revealedHidden := True\<rparr>) (js ''cat .shadow'')
         (begin_command 4 (initial\<lparr>root_flag := True, revealedHidden := True\<rparr>))"
      "js ''cat .shadow''" "[HIDDEN_FILENAME]" example_platform 4 fresh_storage]
  by (simp add: trim_cat_shadow split_cat_shadow)

section \<open>Wrong passwords\<close>

text \<open>
  Claim C6, as the code has it. The handler trims the line before it compares it with the
  secret. While the password is awaited, a line that is not blank and whose trimmed text
  differs from the secret adds exactly one error line, \<open>Sorry, try again.\<close>, and leaves the
  shell waiting; the result does not depend on the guess: two such guesses give the same
  transcript, state and store.
\<close>

theorem wrong_password_not_echoed:
  assumes "awaitingPassword r"
    and "trim g1 \<noteq> []" and "trim g1 \<noteq> PASSWORD"
    and "trim g2 \<noteq> []" and "trim g2 \<noteq> PASSWORD"
  shows "lines (fst (onCommand P now g1 (r, st))) =
           lines r @ [\<lparr>content = js ''Sorry, try again.'', kind = Err\<rparr>] \<and>
         awaitingPassword (fst (onCommand P now g1 (r, st))) \<and>
         onCommand P now g1 (r, st) = onCommand P now g2 (r, st)"
  using assms by (simp add: onCommand_password password_entry_def)

theorem wrong_password_not_echoed_witness:
  "awaitingPassword (initial\<lparr>awaitingPassword := True\<rparr>) \<and>
   trim (js ''hunter2'') \<noteq> [] \<and> trim (js ''hunter2'') \<noteq> PASSWORD \<and>
   trim (js ''letmein'') \<noteq> [] \<and> trim (js ''letmein'') \<noteq> PASSWORD \<and>
   onCommand example_platform 2 (js ''hunter2'') (initial\<lparr>awaitingPassword := True\<rparr>, fresh_storage) =
   onCommand example_platform 2 (js ''letmein'') (initial\<lparr>awaitingPassword := True\<rparr>, fresh_storage)"
  using wrong_password_not_echoed [of "initial\<lparr>awaitingPassword := True\<rparr>" "js ''hunter2''"
      "js ''letmein''" example_platform 2 fresh_storage]
  by (simp add: trim_hunter2 trim_letmein PASSWORD_def)

text \<open>
  The claim as stated, for every line that differs from the secret, fails for the secret
  followed by a space: the line differs from the secret, and it is accepted.
\<close>

theorem padded_password_accepted:
  "PASSWORD @ js '' '' \<noteq> PASSWORD \<and>
   root_flag (fst (onCommand example_platform 1 (PASSWORD @ js '' '')
      (onCommand example_platform 0 (js ''sudo su'') (initial, fresh_storage)))) \<and>
   \<not> awaitingPassword (fst (onCommand example_platform 1 (PASSWORD @ js '' '')
      (onCommand example_platform 0 (js ''sudo su'') (initial, fresh_storage)))) \<and>
   last (lines (fst (onCommand example_platform 1 (PASSWORD @ js '' '')
      (onCommand example_platform 0 (js ''sudo su'') (initial, fresh_storage))))) =
     \<lparr>content = rootRiddle, kind = Out\<rparr>"
  by (simp add: sudo_su_initial onCommand_password trim_padded_password password_nonempty)

section \<open>Root and the reveal are never undone\<close>

text \<open>
  Claim C10. Along every session, from every state: once \<open>root\<close> is true it stays true, and
  once \<open>revealedHidden\<close> is true it stays true. The events are the submitted lines (among
  them \<open>clear\<close> and wrong submissions), the Replay button and the celebration effect. Replay
  writes the transcript, the solved status, the celebration flag and the timer, and nothing
  else.
\<close>

theorem root_and_reveal_monotone:
  "(root_flag (fst x) \<longrightarrow> root_flag (fst (run P es x))) \<and>
   (revealedHidden (fst x) \<longrightarrow> revealedHidden (fst (run P es x))) \<and>
   root_flag (replay s) = root_flag s \<and> revealedHidden (replay s) = revealedHidden s \<and>
   awaitingPassword (replay s) = awaitingPassword s \<and> bestTime (replay s) = bestTime s \<and>
   input (replay s) = input s"
proof -
  have "root_flag (fst x) \<longrightarrow> root_flag (fst (run P es x))"
    by (induction es arbitrary: x) (simp_all add: step_monotone)
  moreover have "revealedHidden (fst x) \<longrightarrow> revealedHidden (fst (run P es x))"
    by (induction es arbitrary: x) (simp_all add: step_monotone)
  ultimately show ?thesis
    by (simp add: replay_def)
qed

theorem root_and_reveal_monotone_witness:
  "root_flag (fst (initial\<lparr>root_flag := True, revealedHidden := True\<rparr>, fresh_storage)) \<and>
   revealedHidden (fst (initial\<lparr>root_flag := True, revealedHidden := True\<rparr>, fresh_storage)) \<and>
   root_flag (fst (run example_platform
     [Line 1 (js ''clear''), Line 2 (js ''submit nope''), ReplayClick, CelebrationEffect]
     (initial\<lparr>root_flag := True, revealedHidden := True\<rparr>, fresh_storage))) \<and>
   revealedHidden (fst (run example_platform
     [Line 1 (js ''clear''), Line 2 (js ''submit nope''), ReplayClick, CelebrationEffect]
     (initial\<lparr>root_flag := True, revealedHidden := True\<rparr>, fresh_storage)))"
  using root_and_reveal_monotone [of
      "(initial\<lparr>root_flag := True, revealedHidden := True\<rparr>, fresh_storage)" example_platform
      "[Line 1 (js ''clear''), Line 2 (js ''submit nope''), ReplayClick, CelebrationEffect]"]
  by simp

section \<open>The best time\<close>

text \<open>
  Claim C5, as the code has it. Take a session that starts with the timer stopped
  (\<open>startTime\<close> is null, as after mounting or Replay), whose first line that is not blank is
  submitted at time \<open>t0\<close>, and that goes on with any events but Replay. If a line
  \<open>submit <flag>\<close> with the right flag is then submitted at time \<open>now\<close> in command mode, the
  puzzle is solved and the elapsed time is \<open>numSub P now t0\<close>, the difference of the two
  clock readings as the arithmetic of doubles gives it. The handler compares it with the
  best time it knows, the one cached in the state or else the one read from the store: if
  none is known, or the elapsed time is strictly smaller, it writes the elapsed time to the
  store (the write takes effect unless \<open>setItem\<close> throws) and caches it; otherwise, so also
  when the elapsed time equals the known best, the store is left as it is. Where the cache
  is empty or agrees with the store, the known best is the stored best.
\<close>

theorem best_time_policy:
  fixes P r0 st0 t0 c0 es now raw rest
  defines "x \<equiv> run P (Line t0 c0 # es) (r0, st0)"
  defines "y \<equiv> onCommand P now raw (fst x, snd x)"
  defines "known \<equiv> existingBest P (fst x) (snd x)"
  assumes "startTime r0 = None" and "trim c0 \<noteq> []" and "ReplayClick \<notin> set es"
    and "\<not> awaitingPassword (fst x)"
    and "split_ws (trim raw) = js ''submit'' # rest" and "join (js '' '') rest = FINAL_FLAG"
  shows "solved (fst y) \<and>
    (if known = None \<or> (\<exists>b. known = Some b \<and> num_lt (Fin (numSub P now t0)) b)
     then snd y = trySetItem (numToString P (numSub P now t0)) (snd x) \<and>
          (\<not> setThrows (snd x) \<longrightarrow> item (snd y) = Some (numToString P (numSub P now t0))) \<and>
          bestTime (fst y) = Some (Fin (numSub P now t0))
     else snd y = snd x \<and> bestTime (fst y) = known) \<and>
    (bestTime (fst x) = None \<or> bestTime (fst x) = readBest P (snd x) \<longrightarrow> known = readBest P (snd x))"
proof -
  have st: "startTime (fst x) = Some t0"
    unfolding x_def using assms(4-6) by (rule run_startTime_first)
  have y: "y = submit P now (fst x) FINAL_FLAG
      (echo (fst x) (trim raw) (begin_command now (fst x)), snd x)"
    unfolding y_def by (simp only: onCommand_submit [OF assms(7,8)] assms(9))
  have coh: "bestTime (fst x) = None \<or> bestTime (fst x) = readBest P (snd x) \<longrightarrow>
      known = readBest P (snd x)"
    by (auto simp add: known_def existingBest_def split: option.splits)
  show ?thesis
    unfolding y submit_flag_timed [OF st] beats_iff known_def [symmetric]
    using coh by (auto simp add: Let_def trySetItem_def setItem_def)
qed

text \<open>
  The example of the specification: with the stored best 5000 ms and the first command at
  1000 ms, a solve at 4000 ms (3000 ms elapsed) stores 3000, and a solve at 9000 ms
  (8000 ms elapsed) leaves 5000.
\<close>

theorem best_time_policy_witness:
  "startTime (loadBest example_platform stored_5000 initial) = None \<and>
   trim (js ''ls'') \<noteq> [] \<and> ReplayClick \<notin> set [] \<and>
   \<not> awaitingPassword (fst (run example_platform [Line 1000 (js ''ls'')]
        (loadBest example_platform stored_5000 initial, stored_5000))) \<and>
   split_ws (trim (js ''submit FLAG{ur_cr@ck3d_brUh}'')) = js ''submit'' # [FINAL_FLAG] \<and>
   join (js '' '') [FINAL_FLAG] = FINAL_FLAG \<and>
   item (snd (run example_platform [Line 1000 (js ''ls'')]
        (loadBest example_platform stored_5000 initial, stored_5000))) = Some (js ''5000'') \<and>
   item (snd (onCommand example_platform 4000 (js ''submit FLAG{ur_cr@ck3d_brUh}'')
     (fst (run example_platform [Line 1000 (js ''ls'')]
        (loadBest example_platform stored_5000 initial, stored_5000)),
      snd (run example_platform [Line 1000 (js ''ls'')]
        (loadBest example_platform stored_5000 initial, stored_5000))))) = Some (js ''3000'') \<and>
   item (snd (onCommand example_platform 9000 (js ''submit FLAG{ur_cr@ck3d_brUh}'')
     (fst (run example_platform [Line 1000 (js ''ls'')]
        (loadBest example_platform stored_5000 initial, stored_5000)),
      snd (run example_platform [Line 1000 (js ''ls'')]
        (loadBest example_platform stored_5000 initial, stored_5000))))) = Some (js ''5000'')"
  using
    best_time_policy [where P = example_platform and ?r0.0 = "loadBest example_platform stored_5000 initial"
      and ?st0.0 = stored_5000 and ?t0.0 = 1000 and ?c0.0 = "js ''ls''" and es = "[]" and now = 4000
      and raw = "js ''submit FLAG{ur_cr@ck3d_brUh}''" and rest = "[FINAL_FLAG]"]
    best_time_policy [where P = example_platform and ?r0.0 = "loadBest example_platform stored_5000 initial"
      and ?st0.0 = stored_5000 and ?t0.0 = 1000 and ?c0.0 = "js ''ls''" and es = "[]" and now = 9000
      and raw = "js ''submit FLAG{ur_cr@ck3d_brUh}''" and rest = "[FINAL_FLAG]"]
  by (simp add: loadBest_examples ls_command trim_ls trim_submit_flag split_submit_flag
        existingBest_def digits_3000)

text \<open>
  The claim as stated fails when the flag is submitted as the first command of the session:
  the handler reads \<open>startTime\<close> of the render it closes over, which is still null, so it
  computes no elapsed time and writes nothing, although no best time is stored.
\<close>

theorem first_command_submit_records_nothing:
  "readBest example_platform fresh_storage = None \<and>
   solved (fst (onCommand example_platform 7 (js ''submit FLAG{ur_cr@ck3d_brUh}'')
     (loadBest example_platform fresh_storage initial, fresh_storage))) \<and>
   item (snd (onCommand example_platform 7 (js ''submit FLAG{ur_cr@ck3d_brUh}'')
     (loadBest example_platform fresh_storage initial, fresh_storage))) = None \<and>
   bestTime (fst (onCommand example_platform 7 (js ''submit FLAG{ur_cr@ck3d_brUh}'')
     (loadBest example_platform fresh_storage initial, fresh_storage))) = None"
proof -
  have "onCommand example_platform 7 (js ''submit FLAG{ur_cr@ck3d_brUh}'') (initial, fresh_storage) =
    submit example_platform 7 initial FINAL_FLAG
      (echo initial (js ''submit FLAG{ur_cr@ck3d_brUh}'') (begin_command 7 initial), fresh_storage)"
    using onCommand_submit [of initial "js ''submit FLAG{ur_cr@ck3d_brUh}''" "[FINAL_FLAG]"
        example_platform 7 fresh_storage]
    by (simp add: trim_submit_flag split_submit_flag)
  then show ?thesis
    by (simp add: loadBest_examples readBest_examples submit_flag_untimed)
qed

section \<open>Reading a best time that is not a number\<close>

text \<open>
  Claim C9 evaluated on the code. An absent key, an empty value and a read that throws give
  no best time (\<open>readBest_none\<close>), and a write that throws is swallowed
  (\<open>write_failure_swallowed\<close>). A stored value that is not a number, such as \<open>abc\<close>, does
  not give "none": \<open>parseFloat\<close> returns \<open>NaN\<close>, which becomes the best time; no elapsed
  time is smaller than \<open>NaN\<close>, so the solve that follows persists nothing and the value stays
  in the store, whereas the same solve over an empty store persists its 3000 ms.
\<close>

theorem unparsable_best_is_kept:
  "readBest example_platform stored_garbage = Some NaN \<and>
   bestTime (loadBest example_platform stored_garbage initial) = Some NaN \<and>
   solved (fst (onCommand example_platform 4000 (js ''submit FLAG{ur_cr@ck3d_brUh}'')
     (onCommand example_platform 1000 (js ''ls'')
        (loadBest example_platform stored_garbage initial, stored_garbage)))) \<and>
   snd (onCommand example_platform 4000 (js ''submit FLAG{ur_cr@ck3d_brUh}'')
     (onCommand example_platform 1000 (js ''ls'')
        (loadBest example_platform stored_garbage initial, stored_garbage))) = stored_garbage \<and>
   bestTime (fst (onCommand example_platform 4000 (js ''submit FLAG{ur_cr@ck3d_brUh}'')
     (onCommand example_platform 1000 (js ''ls'')
        (loadBest example_platform stored_garbage initial, stored_garbage)))) = Some NaN \<and>
   item (snd (onCommand example_platform 4000 (js ''submit FLAG{ur_cr@ck3d_brUh}'')
     (onCommand example_platform 1000 (js ''ls'')
        (loadBest example_platform fresh_storage initial, fresh_storage)))) = Some (js ''3000'')"
  by (simp add: readBest_examples loadBest_examples submit_after_ls existingBest_def beats_def
        Let_def digits_3000)

section \<open>Path resolution\<close>

text \<open>
  Claim C4, as the code has it. From a registered directory every target resolves to a
  registered directory, so the caller never enters a path outside the registry. For a
  target other than \<open>~\<close>, \<open>.\<close> and \<open>..\<close> (after trimming, and with a candidate other than \<open>~\<close>)
  the check is made on the first level \<open>~/<first>\<close> of the candidate, not on the candidate:
  where the first level is not registered the target is rejected and the result is the
  prior path; where it is registered the result is that first-level directory, whatever
  follows it in the candidate, except that a candidate of exactly three segments under
  \<open>certifications\<close> that is itself registered is the result.
\<close>

theorem resolvePath_validates_first_level:
  fixes current target
  defines "trimmed \<equiv> trim target"
  defines "cand \<equiv> candidateAbs (segments current) trimmed"
  defines "parts \<equiv> split_on 47 cand"
  shows "(current \<in> directorySet \<longrightarrow> resolvePath current target \<in> directorySet) \<and>
    (trimmed \<noteq> [] \<and> trimmed \<noteq> js ''~'' \<and> trimmed \<noteq> js ''.'' \<and> trimmed \<noteq> js ''..'' \<and>
     cand \<noteq> js ''~'' \<longrightarrow>
       (firstLevel parts \<notin> directorySet \<longrightarrow> resolvePath current target = current) \<and>
       (firstLevel parts \<in> directorySet \<longrightarrow>
          resolvePath current target =
            (if length parts = 3 \<and> parts ! 1 = js ''certifications'' \<and> cand \<in> directorySet
             then cand else firstLevel parts)))"
proof -
  have sub: "join (js ''/'') (take 3 parts) = cand" if "length parts = 3"
    using that join_split_on [of 47 cand] by (simp add: slash parts_def)
  have general: "resolvePath current target =
      (if firstLevel parts \<in> directorySet
       then (if length parts = 3 \<and> parts ! 1 = js ''certifications'' \<and> cand \<in> directorySet
             then cand else firstLevel parts)
       else current)"
    if "trimmed \<noteq> []" "trimmed \<noteq> js ''~''" "trimmed \<noteq> js ''.''" "trimmed \<noteq> js ''..''"
       "cand \<noteq> js ''~''"
  proof (cases "length parts = 3")
    case True
    show ?thesis
      using that True sub three_parts [OF True, of "js ''certifications''"]
      unfolding resolvePath_def Let_def trimmed_def [symmetric] cand_def [symmetric]
        parts_def [symmetric]
      by simp
  next
    case False
    show ?thesis
      using that False
      unfolding resolvePath_def Let_def trimmed_def [symmetric] cand_def [symmetric]
        parts_def [symmetric]
      by simp
  qed
  have closed: "resolvePath current target \<in> directorySet" if reg: "current \<in> directorySet"
  proof -
    consider "trimmed = []" | "trimmed \<noteq> []" "trimmed = js ''~''"
      | "trimmed \<noteq> []" "trimmed \<noteq> js ''~''" "trimmed = js ''.''"
      | "trimmed \<noteq> []" "trimmed \<noteq> js ''~''" "trimmed \<noteq> js ''.''" "trimmed = js ''..''"
      | "trimmed \<noteq> []" "trimmed \<noteq> js ''~''" "trimmed \<noteq> js ''.''" "trimmed \<noteq> js ''..''"
        "cand = js ''~''"
      | "trimmed \<noteq> []" "trimmed \<noteq> js ''~''" "trimmed \<noteq> js ''.''" "trimmed \<noteq> js ''..''"
        "cand \<noteq> js ''~''"
      by blast
    then show ?thesis
    proof cases
      case 1
      then show ?thesis using reg by (simp add: resolvePath_def trimmed_def)
    next
      case 2
      then show ?thesis by (simp add: resolvePath_def trimmed_def home_registered)
    next
      case 3
      then show ?thesis using reg by (simp add: resolvePath_def trimmed_def)
    next
      case 4
      then show ?thesis
        using parent_registered [OF reg]
        by (auto simp add: resolvePath_def trimmed_def Let_def home_registered split: if_splits)
    next
      case 5
      then show ?thesis
        unfolding resolvePath_def Let_def trimmed_def [symmetric] cand_def [symmetric]
        by (simp add: home_registered)
    next
      case 6
      then show ?thesis
        using general reg by simp
    qed
  qed
  show ?thesis
    using general closed by simp
qed

theorem resolvePath_validates_first_level_witness:
  "js ''~/certifications'' \<in> directorySet \<and>
   trim (js ''cloud'') \<noteq> [] \<and> trim (js ''cloud'') \<noteq> js ''~'' \<and> trim (js ''cloud'') \<noteq> js ''.'' \<and>
   trim (js ''cloud'') \<noteq> js ''..'' \<and>
   candidateAbs (segments (js ''~/certifications'')) (trim (js ''cloud'')) =
     js ''~/certifications/cloud'' \<and>
   firstLevel (split_on 47 (js ''~/certifications/cloud'')) \<in> directorySet \<and>
   resolvePath (js ''~/certifications'') (js ''cloud'') = js ''~/certifications/cloud'' \<and>
   js ''~'' \<in> directorySet \<and>
   candidateAbs (segments (js ''~'')) (trim (js ''nonexistent-dir'')) = js ''~/nonexistent-dir'' \<and>
   firstLevel (split_on 47 (js ''~/nonexistent-dir'')) \<notin> directorySet \<and>
   resolvePath (js ''~'') (js ''nonexistent-dir'') = js ''~''"
  using resolvePath_validates_first_level [of "js ''~/certifications''" "js ''cloud''"]
    resolvePath_validates_first_level [of "js ''~''" "js ''nonexistent-dir''"]
  by (simp add: resolve_eval)

text \<open>
  The claim as stated, that a candidate outside the registry is rejected and the prior path
  kept, fails for \<open>projects/foo\<close> at the root: the candidate \<open>~/projects/foo\<close> is not
  registered, and the result is \<open>~/projects\<close>, not the prior path \<open>~\<close>.
\<close>

theorem unregistered_candidate_accepted:
  "candidateAbs (segments (js ''~'')) (trim (js ''projects/foo'')) = js ''~/projects/foo'' \<and>
   js ''~/projects/foo'' \<notin> directorySet \<and>
   resolvePath (js ''~'') (js ''projects/foo'') = js ''~/projects'' \<and>
   resolvePath (js ''~'') (js ''projects/foo'') \<noteq> js ''~''"
  by (simp add: resolve_eval)

section \<open>Changing the directory\<close>

text \<open>
  Claim C7, as the code has it. For a line whose first token is \<open>cd\<close> in any case, with
  \<open>target\<close> the other tokens joined by single spaces, the handler returns; the new path is
  what \<open>resolvePath\<close> returns; the transcript gains the two prompt lines and, exactly when
  that path is the current one and the target is neither empty nor \<open>.\<close> nor \<open>~\<close>, one error
  line \<open>bash: cd: <target>: No such file or directory\<close>. So the error comes with the path
  unchanged, and a changed path comes with no error line.
\<close>

theorem cd_reports_unchanged_path:
  fixes P inp T cmd args
  defines "target \<equiv> join (js '' '') args"
  defines "next \<equiv> resolvePath (currentPath T) target"
  assumes "split_ws (trim inp) = cmd # args" and "toLowerCase P cmd = js ''cd''"
  shows "executeCommand P inp T =
    Inr (T\<lparr>commandHistory := commandHistory T @ [trim inp], historyIndex := - 1,
          currentPath := next, currentInput := [],
          tlines := tlines T @ prompt_lines T (trim inp) @
            (if next = currentPath T \<and> target \<noteq> [] \<and> target \<noteq> js ''.'' \<and> target \<noteq> js ''~''
             then [out_line Error (js ''bash: cd: '' @ target @ js '': No such file or directory'')]
             else [])\<rparr>)"
  unfolding target_def next_def using assms(3,4) by (rule cd_command)

theorem cd_reports_unchanged_path_witness:
  "split_ws (trim (js ''cd nonexistent-dir'')) = js ''cd'' # [js ''nonexistent-dir''] \<and>
   toLowerCase example_platform (js ''cd'') = js ''cd'' \<and>
   \<not> isl (executeCommand example_platform (js ''cd nonexistent-dir'') initial_terminal) \<and>
   currentPath (result_state
     (executeCommand example_platform (js ''cd nonexistent-dir'') initial_terminal)) = js ''~'' \<and>
   last (tlines (result_state
     (executeCommand example_platform (js ''cd nonexistent-dir'') initial_terminal))) =
     out_line Error (js ''bash: cd: nonexistent-dir: No such file or directory'') \<and>
   split_ws (trim (js ''cd projects'')) = js ''cd'' # [js ''projects''] \<and>
   currentPath (result_state
     (executeCommand example_platform (js ''cd projects'') initial_terminal)) = js ''~/projects'' \<and>
   tlines (result_state (executeCommand example_platform (js ''cd projects'') initial_terminal)) =
     intro_lines @ prompt_lines initial_terminal (js ''cd projects'')"
  using cd_reports_unchanged_path [of "js ''cd nonexistent-dir''" "js ''cd''"
      "[js ''nonexistent-dir'']" example_platform initial_terminal]
    cd_reports_unchanged_path [of "js ''cd projects''" "js ''cd''"
      "[js ''projects'']" example_platform initial_terminal]
  by (simp add: trim_cd_nonexistent split_cd_nonexistent lower_cd resolve_nonexistent
        trim_cd_projects split_cd_projects resolve_projects
        result_state_def js_append [symmetric])

text \<open>
  The claim as stated fails on the text of the line, which starts with \<open>bash: \<close>: no line
  \<open>cd: nonexistent-dir: No such file or directory\<close> is emitted. It also fails where failing
  means that the target names no directory: in \<open>~/certifications/cloud\<close> the line
  \<open>cd nowhere\<close> moves to \<open>~/certifications\<close> and emits no error line.
\<close>

theorem cd_error_text_has_bash_prefix:
  "ltext (last (tlines (result_state
     (executeCommand example_platform (js ''cd nonexistent-dir'') initial_terminal)))) =
     js ''bash: cd: nonexistent-dir: No such file or directory'' \<and>
   ltext (last (tlines (result_state
     (executeCommand example_platform (js ''cd nonexistent-dir'') initial_terminal)))) \<noteq>
     js ''cd: nonexistent-dir: No such file or directory'' \<and>
   out_line Error (js ''cd: nonexistent-dir: No such file or directory'') \<notin>
     set (tlines (result_state
       (executeCommand example_platform (js ''cd nonexistent-dir'') initial_terminal))) \<and>
   js ''~/certifications/cloud/nowhere'' \<notin> directorySet \<and>
   currentPath (result_state (executeCommand example_platform (js ''cd nowhere'')
     (initial_terminal\<lparr>currentPath := js ''~/certifications/cloud''\<rparr>))) =
     js ''~/certifications'' \<and>
   ltype (last (tlines (result_state (executeCommand example_platform (js ''cd nowhere'')
     (initial_terminal\<lparr>currentPath := js ''~/certifications/cloud''\<rparr>))))) = Command"
proof -
  have "executeCommand example_platform (js ''cd nonexistent-dir'') initial_terminal =
    Inr (initial_terminal\<lparr>commandHistory := [js ''cd nonexistent-dir''], historyIndex := - 1,
          currentPath := js ''~'', currentInput := [],
          tlines := intro_lines @ prompt_lines initial_terminal (js ''cd nonexistent-dir'') @
            [out_line Error (js ''bash: cd: nonexistent-dir: No such file or directory'')]\<rparr>)"
    using cd_command [of "js ''cd nonexistent-dir''" "js ''cd''" "[js ''nonexistent-dir'']"
        example_platform initial_terminal]
    by (simp add: trim_cd_nonexistent split_cd_nonexistent lower_cd resolve_nonexistent
          js_append [symmetric])
  moreover have "executeCommand example_platform (js ''cd nowhere'')
      (initial_terminal\<lparr>currentPath := js ''~/certifications/cloud''\<rparr>) =
    Inr (initial_terminal\<lparr>commandHistory := [js ''cd nowhere''], historyIndex := - 1,
          currentPath := js ''~/certifications'', currentInput := [],
          tlines := intro_lines @
            prompt_lines (initial_terminal\<lparr>currentPath := js ''~/certifications/cloud''\<rparr>)
              (js ''cd nowhere'')\<rparr>)"
    using cd_command [of "js ''cd nowhere''" "js ''cd''" "[js ''nowhere'']"
        example_platform "initial_terminal\<lparr>currentPath := js ''~/certifications/cloud''\<rparr>"]
    by (simp add: trim_cd_nowhere split_cd_nowhere lower_cd resolve_nowhere)
  moreover have "js ''~/certifications/cloud/nowhere'' \<notin> directorySet"
    by (simp add: directorySet_def)
  ultimately show ?thesis
    by (auto simp add: result_state_def out_line_def intro_lines_def prompt_lines_def)
qed

section \<open>The order of listings\<close>

text \<open>
  Claim C8. Where \<open>localeCompare\<close> compares consistently, every listing of the terminal's
  file system, of whatever path, has its names other than \<open>on-going.txt\<close> sorted by
  \<open>localeCompare\<close>, followed by \<open>on-going.txt\<close> where the directory has it. In the puzzle,
  where the listing that \<open>ls\<close> prints has the hidden file, the hidden file is its last name
  and occurs nowhere before.
\<close>

theorem listings_sorted_sentinels_last:
  "(consistent_collation P \<longrightarrow> ordered_listing P (map name (listDirectory P path))) \<and>
   (HIDDEN_FILENAME \<in> set (split_ws (content (last (lines (doLs r all s))))) \<longrightarrow>
      last (split_ws (content (last (lines (doLs r all s))))) = HIDDEN_FILENAME \<and>
      HIDDEN_FILENAME \<notin> set (butlast (split_ws (content (last (lines (doLs r all s)))))))"
proof -
  have terminal: "ordered_listing P (map name (listDirectory P path))" if c: "consistent_collation P"
  proof -
    have root: "ordered_listing P (map name (map (\<lambda>e. \<lparr>name = name e, ekind = ekind e\<rparr>)
        (sort_by (name_cmp P) baseEntries)))"
    proof -
      have "ordered_listing P (map name (sort_by (name_cmp P) baseEntries))"
        using fixed_names_not_ongoing(1)
        by (intro ordered_without_ongoing sorted_by_name [OF c]) (simp add: set_sort_by)
      then show ?thesis by (simp add: comp_def)
    qed
    have certs: "ordered_listing P (map name (sort_by (name_cmp P)
        (map (\<lambda>d. \<lparr>name = d, ekind = Dir\<rparr>) categories)))"
      using fixed_names_not_ongoing(2)
      by (intro ordered_without_ongoing sorted_by_name [OF c]) (auto simp add: set_sort_by)
    have projects: "ordered_listing P (map name (sort_by (name_cmp P)
        (map (\<lambda>(n, c). \<lparr>name = n, ekind = File\<rparr>) projectFiles)))"
      using fixed_names_not_ongoing(3)
      by (intro ordered_without_ongoing sorted_by_name [OF c]) (auto simp add: set_sort_by)
    have empty: "ordered_listing P []"
      by (simp add: ordered_listing_def)
    show ?thesis
      unfolding listDirectory_def Let_def
      using root certs projects empty ordered_by_ongoing [OF c]
      by (simp split: list.split)
  qed
  have ctf: "split_ws (content (last (lines (doLs r all s)))) =
      (if root_flag r \<and> all then [READ_ME, HIDDEN_FILENAME] else [READ_ME])"
    by (simp add: doLs_lines split_listing_plain split_listing_all)
  show ?thesis
    using terminal by (simp add: ctf hidden_not_readme)
qed

theorem listings_sorted_sentinels_last_witness:
  "consistent_collation example_platform \<and>
   map name (listDirectory example_platform (js ''~/certifications/cloud'')) =
     [js ''cloudCertificate1.txt'', js ''on-going.txt''] \<and>
   ordered_listing example_platform [js ''cloudCertificate1.txt'', js ''on-going.txt''] \<and>
   HIDDEN_FILENAME \<in> set (split_ws (content (last (lines
     (doLs (initial\<lparr>root_flag := True\<rparr>) True initial))))) \<and>
   last (split_ws (content (last (lines
     (doLs (initial\<lparr>root_flag := True\<rparr>) True initial))))) = HIDDEN_FILENAME"
  using listings_sorted_sentinels_last [of example_platform "js ''~/certifications/cloud''"
      "initial\<lparr>root_flag := True\<rparr>" True initial]
  by (simp add: example_collation cloud_listing doLs_lines split_listing_all)

end
